theory Spec2Isabelle
  imports Main "HOL-Library.Char_ord" "HOL-Library.List_Lexorder" "HOL-Library.AList"
    "HOL-Library.Monad_Syntax"
begin

section \<open>Python values used by \<^verbatim>\<open>compiler_gym/envs/gcc/gcc.py\<close>\<close>

text \<open>
  Python integers are unbounded: they are \<^typ>\<open>int\<close>. Strings are \<^typ>\<open>string\<close>; the model
  covers ASCII text, where Python's code-point order, \<^verbatim>\<open>str.isspace\<close> and the regular
  expression classes agree with the byte-wise definitions below. Every exception the code
  can raise is a value of \<open>error\<close>; a function that can raise returns \<open>error + 'a\<close>.
\<close>

datatype error =
    AssertionError
  | ValueError
  | OverflowError
  | IndexError
  | ServiceError
  | ServiceInitError
  | TimeoutError
  | TimeoutExpired
  | UnpicklingError
  | EOFError

text \<open>
  \<^verbatim>\<open>except subprocess.SubprocessError\<close> catches the exceptions of the subprocess module.
  \<^verbatim>\<open>CalledProcessError\<close> never leaves \<^verbatim>\<open>Gcc._subprocess_run\<close> (it is turned into a
  \<^verbatim>\<open>ServiceError\<close> there), so the one that reaches a caller is \<^verbatim>\<open>TimeoutExpired\<close>.

  Modelled from the spec: the classes \<^verbatim>\<open>ServiceError\<close> and \<^verbatim>\<open>ServiceInitError\<close> are imported
  from \<^verbatim>\<open>compiler_gym.service\<close>, which is not part of the sources at hand. The spec calls
  them failures distinct from the timeout; they are taken as exception classes of their own,
  not subclasses of \<^verbatim>\<open>subprocess.SubprocessError\<close>.
\<close>

definition is_SubprocessError :: "error \<Rightarrow> bool" where
  "is_SubprocessError e = (e = TimeoutExpired)"

subsection \<open>\<^verbatim>\<open>str(int)\<close>, as the f-strings format an integer\<close>

definition digit_char :: "nat \<Rightarrow> char" where
  "digit_char d = ''0123456789'' ! d"

fun str_nat :: "nat \<Rightarrow> string" where
  "str_nat n = (if n < 10 then [digit_char n] else str_nat (n div 10) @ [digit_char (n mod 10)])"

declare str_nat.simps [simp del]

definition str_int :: "int \<Rightarrow> string" where
  "str_int i = (if i < 0 then CHR ''-'' # str_nat (nat (- i)) else str_nat (nat i))"

subsection \<open>List indexing\<close>

text \<open>\<^verbatim>\<open>xs[key]\<close>: a negative key counts from the end, a key out of range raises.\<close>

definition list_getitem :: "'a list \<Rightarrow> int \<Rightarrow> error + 'a" where
  "list_getitem xs key =
     (let n = int (length xs); k = (if key < 0 then key + n else key)
      in if 0 \<le> k \<and> k < n then Inr (xs ! nat k) else Inl IndexError)"

section \<open>The option model\<close>

text \<open>
  The seven subclasses of \<^verbatim>\<open>Option\<close>, with the fields their constructors set:
  \<^verbatim>\<open>GccOOption\<close> (values), \<^verbatim>\<open>GccFlagOption\<close> (name, no\_fno),
  \<^verbatim>\<open>GccFlagEnumOption\<close> (name, values), \<^verbatim>\<open>GccFlagIntOption\<close> (name, min, max),
  \<^verbatim>\<open>GccFlagAlignOption\<close> (name), \<^verbatim>\<open>GccParamEnumOption\<close> (name, values) and
  \<^verbatim>\<open>GccParamIntOption\<close> (name, min, max).
\<close>

datatype Option =
    GccOOption "string list"
  | GccFlagOption string bool
  | GccFlagEnumOption string "string list"
  | GccFlagIntOption string int int
  | GccFlagAlignOption string
  | GccParamEnumOption string "string list"
  | GccParamIntOption string int int

text \<open>\<^verbatim>\<open>__len__\<close>: what the method itself returns.\<close>

fun Option_len :: "Option \<Rightarrow> int" where
  "Option_len (GccOOption vals) = int (length vals)"
| "Option_len (GccFlagOption name no_fno) = (if no_fno then 1 else 2)"
| "Option_len (GccFlagEnumOption name vals) = int (length vals)"
| "Option_len (GccFlagIntOption name mn mx) = mx - mn + 1"
| "Option_len (GccFlagAlignOption name) = 1"
| "Option_len (GccParamEnumOption name vals) = int (length vals)"
| "Option_len (GccParamIntOption name mn mx) = mx - mn + 1"

text \<open>
  The builtin \<^verbatim>\<open>len(option)\<close> calls \<^verbatim>\<open>__len__\<close> and raises \<^verbatim>\<open>ValueError\<close> on a negative
  result and \<^verbatim>\<open>OverflowError\<close> on one above \<^verbatim>\<open>sys.maxsize\<close> (a 64-bit CPython here).
  The truth value of an option (\<^verbatim>\<open>if opt:\<close>, \<^verbatim>\<open>assert not opt\<close>) goes the same way, as no
  class defines \<^verbatim>\<open>__bool__\<close>: an option is true when its length is not zero.
\<close>

definition sys_maxsize :: int where
  "sys_maxsize = 2 ^ 63 - 1"

definition len :: "Option \<Rightarrow> error + int" where
  "len opt =
     (let n = Option_len opt
      in if n < 0 then Inl ValueError else if sys_maxsize < n then Inl OverflowError else Inr n)"

definition truthy :: "Option \<Rightarrow> error + bool" where
  "truthy opt = (case len opt of Inl e \<Rightarrow> Inl e | Inr n \<Rightarrow> Inr (n \<noteq> 0))"

text \<open>\<^verbatim>\<open>__getitem__\<close>: the command line argument of an index.\<close>

fun Option_getitem :: "Option \<Rightarrow> int \<Rightarrow> error + string" where
  "Option_getitem (GccOOption vals) key =
     (case list_getitem vals key of Inl e \<Rightarrow> Inl e | Inr v \<Rightarrow> Inr (''-O'' @ v))"
| "Option_getitem (GccFlagOption name no_fno) key =
     Inr (''-f'' @ (if key = 0 then '''' else ''no-'') @ name)"
| "Option_getitem (GccFlagEnumOption name vals) key =
     (case list_getitem vals key of Inl e \<Rightarrow> Inl e | Inr v \<Rightarrow> Inr (''-f'' @ name @ ''='' @ v))"
| "Option_getitem (GccFlagIntOption name mn mx) key =
     Inr (''-f'' @ name @ ''='' @ str_int (mn + key))"
| "Option_getitem (GccFlagAlignOption name) key = Inr (''-f'' @ name)"
| "Option_getitem (GccParamEnumOption name vals) key =
     (case list_getitem vals key of Inl e \<Rightarrow> Inl e
      | Inr v \<Rightarrow> Inr (''--param='' @ name @ ''='' @ v))"
| "Option_getitem (GccParamIntOption name mn mx) key =
     Inr (''--param='' @ name @ ''='' @ str_int (mn + key))"

text \<open>\<^verbatim>\<open>__str__\<close>: the name of the option.\<close>

fun Option_str :: "Option \<Rightarrow> string" where
  "Option_str (GccOOption vals) = ''-O''"
| "Option_str (GccFlagOption name no_fno) = ''-f'' @ name"
| "Option_str (GccFlagEnumOption name vals) = ''-f'' @ name"
| "Option_str (GccFlagIntOption name mn mx) = ''-f'' @ name"
| "Option_str (GccFlagAlignOption name) = ''-f'' @ name"
| "Option_str (GccParamEnumOption name vals) = ''--param='' @ name"
| "Option_str (GccParamIntOption name mn mx) = ''--param='' @ name"

section \<open>The compiler and its spec\<close>

text \<open>
  A \<^verbatim>\<open>Gcc\<close> object is its \<^verbatim>\<open>bin\<close> string and what calling it does: \<open>call gcc args\<close> is
  \<^verbatim>\<open>gcc(args, timeout=60)\<close>, the output of the run or the exception it raises.
\<close>

record Gcc =
  bin :: string
  call :: "string list \<Rightarrow> error + string"

record GccSpec =
  gcc :: Gcc
  version :: string
  options :: "Option list"

text \<open>\<^verbatim>\<open>GccSpec.size\<close>: the loop \<^verbatim>\<open>sz *= len(option) + 1\<close>, started at 1.\<close>

fun size_loop :: "int \<Rightarrow> Option list \<Rightarrow> error + int" where
  "size_loop sz [] = Inr sz"
| "size_loop sz (option # rest) =
     (case len option of Inl e \<Rightarrow> Inl e | Inr n \<Rightarrow> size_loop (sz * (n + 1)) rest)"

definition size_spec :: "GccSpec \<Rightarrow> error + int" where
  "size_spec spec = size_loop 1 (options spec)"

section \<open>Text\<close>

text \<open>
  \<^verbatim>\<open>str.isspace\<close> on ASCII: tab, line feed, vertical tab, form feed, carriage return, the
  four separators \<^verbatim>\<open>\x1c\<close> to \<^verbatim>\<open>\x1f\<close>, and the space. The class \<^verbatim>\<open>\s\<close> of \<^verbatim>\<open>re\<close> is the
  same set.
\<close>

definition is_space :: "char \<Rightarrow> bool" where
  "is_space c \<longleftrightarrow>
     c \<in> set [CHR 0x09, CHR 0x0A, CHR 0x0B, CHR 0x0C, CHR 0x0D,
               CHR 0x1C, CHR 0x1D, CHR 0x1E, CHR 0x1F, CHR 0x20]"

definition is_digit :: "char \<Rightarrow> bool" where
  "is_digit c \<longleftrightarrow> CHR ''0'' \<le> c \<and> c \<le> CHR ''9''"

definition is_lower :: "char \<Rightarrow> bool" where
  "is_lower c \<longleftrightarrow> CHR ''a'' \<le> c \<and> c \<le> CHR ''z''"

definition is_upper :: "char \<Rightarrow> bool" where
  "is_upper c \<longleftrightarrow> CHR ''A'' \<le> c \<and> c \<le> CHR ''Z''"

text \<open>\<^verbatim>\<open>s.split()\<close>: the maximal runs of characters that are not whitespace.\<close>

fun split_acc :: "string \<Rightarrow> string \<Rightarrow> string list" where
  "split_acc cur [] = (if cur = [] then [] else [cur])"
| "split_acc cur (c # cs) =
     (if is_space c then (if cur = [] then [] else [cur]) @ split_acc [] cs
      else split_acc (cur @ [c]) cs)"

definition split_ws :: "string \<Rightarrow> string list" where
  "split_ws s = split_acc [] s"

text \<open>\<^verbatim>\<open>s.split(sep)\<close> for a separator of one character: empty pieces are kept.\<close>

fun split_sep_acc :: "char \<Rightarrow> string \<Rightarrow> string \<Rightarrow> string list" where
  "split_sep_acc sep cur [] = [cur]"
| "split_sep_acc sep cur (c # cs) =
     (if c = sep then cur # split_sep_acc sep [] cs else split_sep_acc sep (cur @ [c]) cs)"

definition split_sep :: "char \<Rightarrow> string \<Rightarrow> string list" where
  "split_sep sep s = split_sep_acc sep [] s"

text \<open>\<^verbatim>\<open>s.strip()\<close>.\<close>

definition strip :: "string \<Rightarrow> string" where
  "strip s = rev (dropWhile is_space (rev (dropWhile is_space s)))"

text \<open>\<^verbatim>\<open>p in s\<close> for strings: \<open>p\<close> occurs in \<open>s\<close>.\<close>

fun contains :: "string \<Rightarrow> string \<Rightarrow> bool" where
  "contains p [] = (p = [])"
| "contains p (c # cs) = (take (length p) (c # cs) = p \<or> contains p cs)"

text \<open>
  \<^verbatim>\<open>int(s)\<close> on ASCII text: whitespace around the number is dropped, a sign may lead, and
  the digits may be grouped by single underscores. \<open>None\<close> stands for the \<^verbatim>\<open>ValueError\<close>.
  (The limit on the number of digits that CPython 3.11 introduced is not modelled.)
\<close>

fun int_body_ok :: "string \<Rightarrow> bool" where
  "int_body_ok [] = False"
| "int_body_ok [c] = is_digit c"
| "int_body_ok (c # d # r) =
     (is_digit c \<and> (if d = CHR ''_'' then int_body_ok r else int_body_ok (d # r)))"

definition digit_val :: "char \<Rightarrow> nat" where
  "digit_val c = of_char c - 48"

definition dec_val :: "string \<Rightarrow> nat" where
  "dec_val ds = foldl (\<lambda>a c. 10 * a + digit_val c) 0 ds"

definition py_int :: "string \<Rightarrow> int option" where
  "py_int s =
     (let t = strip s;
          neg = (take 1 t = ''-'');
          body = (if take 1 t = ''-'' \<or> take 1 t = ''+'' then drop 1 t else t)
      in if int_body_ok body
         then Some ((if neg then - 1 else 1) * int (dec_val (filter is_digit body)))
         else None)"

definition is_int :: "string \<Rightarrow> bool" where
  "is_int s \<longleftrightarrow> py_int s \<noteq> None"

section \<open>The regular expressions\<close>

text \<open>
  Every pattern of the two parsers is a sequence of literals and of classes under \<^verbatim>\<open>+\<close>,
  used with \<^verbatim>\<open>fullmatch\<close>. In each of them the character that follows a \<^verbatim>\<open>+\<close> group is
  outside the group's class, so the greedy match is the only one and backtracking never
  finds another: \<open>many1\<close> takes the longest run, \<open>lit\<close> a literal, \<open>eos\<close> the end of the text.
  A pattern returns its groups, or \<open>None\<close> when \<^verbatim>\<open>fullmatch\<close> returns \<^verbatim>\<open>None\<close>.
\<close>

definition lit :: "string \<Rightarrow> string \<Rightarrow> string option" where
  "lit p s = (if take (length p) s = p then Some (drop (length p) s) else None)"

definition many1 :: "(char \<Rightarrow> bool) \<Rightarrow> string \<Rightarrow> (string \<times> string) option" where
  "many1 cls s = (if takeWhile cls s = [] then None else Some (takeWhile cls s, dropWhile cls s))"

definition eos :: "string \<Rightarrow> unit option" where
  "eos s = (if s = [] then Some () else None)"

text \<open>\<^verbatim>\<open>-?[0-9]+\<close> (and \<^verbatim>\<open>-?\d+\<close> on ASCII).\<close>

definition signed_digits :: "string \<Rightarrow> (string \<times> string) option" where
  "signed_digits s =
     (case lit ''-'' s of
        Some r \<Rightarrow> (case many1 is_digit r of Some (ds, r') \<Rightarrow> Some (''-'' @ ds, r') | None \<Rightarrow> None)
      | None \<Rightarrow> many1 is_digit s)"

text \<open>The classes \<^verbatim>\<open>[-a-z0-9]\<close>, \<^verbatim>\<open>[-a-z]\<close>, \<^verbatim>\<open>[-A-Za-z_\|]\<close> and \<^verbatim>\<open>[-a-zA-Z0-9]\<close>.\<close>

definition cls_flag_name :: "char \<Rightarrow> bool" where
  "cls_flag_name c \<longleftrightarrow> c = CHR ''-'' \<or> is_lower c \<or> is_digit c"

definition cls_align :: "char \<Rightarrow> bool" where
  "cls_align c \<longleftrightarrow> c = CHR ''-'' \<or> is_lower c"

definition cls_enum :: "char \<Rightarrow> bool" where
  "cls_enum c \<longleftrightarrow> c = CHR ''-'' \<or> is_upper c \<or> is_lower c \<or> c = CHR ''_'' \<or> c = CHR ''|''"

definition cls_param_name :: "char \<Rightarrow> bool" where
  "cls_param_name c \<longleftrightarrow> c = CHR ''-'' \<or> is_lower c \<or> is_upper c \<or> is_digit c"

text \<open>\<^verbatim>\<open>-O<number>\<close>\<close>

definition O_num_pat :: "string \<Rightarrow> unit option" where
  "O_num_pat s = do { r \<leftarrow> lit ''-O<number>'' s; eos r }"

text \<open>\<^verbatim>\<open>-O([a-z]+)\<close>\<close>

definition O_pat :: "string \<Rightarrow> string option" where
  "O_pat s = do { r \<leftarrow> lit ''-O'' s; (g1, r) \<leftarrow> many1 is_lower r; eos r; Some g1 }"

text \<open>\<^verbatim>\<open>-f(align-[-a-z]+)=\<close>\<close>

definition flag_align_eq_pat :: "string \<Rightarrow> string option" where
  "flag_align_eq_pat s =
     do { r \<leftarrow> lit ''-f'' s; r \<leftarrow> lit ''align-'' r; (g, r) \<leftarrow> many1 cls_align r;
          r \<leftarrow> lit ''='' r; eos r; Some (''align-'' @ g) }"

text \<open>\<^verbatim>\<open>-f([-a-z0-9]+)\<close>\<close>

definition flag_pat :: "string \<Rightarrow> string option" where
  "flag_pat s = do { r \<leftarrow> lit ''-f'' s; (g1, r) \<leftarrow> many1 cls_flag_name r; eos r; Some g1 }"

text \<open>\<^verbatim>\<open>-f([-a-z0-9]+)=\[([-A-Za-z_\|]+)\]\<close>\<close>

definition flag_enum_pat :: "string \<Rightarrow> (string \<times> string) option" where
  "flag_enum_pat s =
     do { r \<leftarrow> lit ''-f'' s; (g1, r) \<leftarrow> many1 cls_flag_name r; r \<leftarrow> lit ''=['' r;
          (g2, r) \<leftarrow> many1 cls_enum r; r \<leftarrow> lit '']'' r; eos r; Some (g1, g2) }"

text \<open>\<^verbatim>\<open>-f([-a-z0-9]+)=<([0-9]+),([0-9]+)>\<close>\<close>

definition flag_interval_pat :: "string \<Rightarrow> (string \<times> string \<times> string) option" where
  "flag_interval_pat s =
     do { r \<leftarrow> lit ''-f'' s; (g1, r) \<leftarrow> many1 cls_flag_name r; r \<leftarrow> lit ''=<'' r;
          (g2, r) \<leftarrow> many1 is_digit r; r \<leftarrow> lit '','' r; (g3, r) \<leftarrow> many1 is_digit r;
          r \<leftarrow> lit ''>'' r; eos r; Some (g1, g2, g3) }"

text \<open>\<^verbatim>\<open>-f([-a-z0-9]+)=<number>\<close>\<close>

definition flag_number_pat :: "string \<Rightarrow> string option" where
  "flag_number_pat s =
     do { r \<leftarrow> lit ''-f'' s; (g1, r) \<leftarrow> many1 cls_flag_name r; r \<leftarrow> lit ''=<number>'' r;
          eos r; Some g1 }"

text \<open>\<^verbatim>\<open>--param=([-a-zA-Z0-9]+)=\[([-A-Za-z_\|]+)\]\<close>\<close>

definition param_enum_pat :: "string \<Rightarrow> (string \<times> string) option" where
  "param_enum_pat s =
     do { r \<leftarrow> lit ''--param='' s; (g1, r) \<leftarrow> many1 cls_param_name r; r \<leftarrow> lit ''=['' r;
          (g2, r) \<leftarrow> many1 cls_enum r; r \<leftarrow> lit '']'' r; eos r; Some (g1, g2) }"

text \<open>\<^verbatim>\<open>--param=([-a-zA-Z0-9]+)=<(-?[0-9]+),([0-9]+)>\<close>\<close>

definition param_interval_pat :: "string \<Rightarrow> (string \<times> string \<times> string) option" where
  "param_interval_pat s =
     do { r \<leftarrow> lit ''--param='' s; (g1, r) \<leftarrow> many1 cls_param_name r; r \<leftarrow> lit ''=<'' r;
          (g2, r) \<leftarrow> signed_digits r; r \<leftarrow> lit '','' r; (g3, r) \<leftarrow> many1 is_digit r;
          r \<leftarrow> lit ''>'' r; eos r; Some (g1, g2, g3) }"

text \<open>\<^verbatim>\<open>--param=([-a-zA-Z0-9]+)=\<close>\<close>

definition param_number_pat :: "string \<Rightarrow> string option" where
  "param_number_pat s =
     do { r \<leftarrow> lit ''--param='' s; (g1, r) \<leftarrow> many1 cls_param_name r; r \<leftarrow> lit ''='' r;
          eos r; Some g1 }"

text \<open>
  \<^verbatim>\<open>([-a-zA-Z0-9]+)\s+default\s+(-?\d+)\s+minimum\s+(-?\d+)\s+maximum\s+(-?\d+)\<close>,
  matched against the whole line.
\<close>

definition param_old_interval_pat :: "string \<Rightarrow> (string \<times> string \<times> string \<times> string) option" where
  "param_old_interval_pat s =
     do { (g1, r) \<leftarrow> many1 cls_param_name s;
          (w, r) \<leftarrow> many1 is_space r; r \<leftarrow> lit ''default'' r;
          (w, r) \<leftarrow> many1 is_space r; (g2, r) \<leftarrow> signed_digits r;
          (w, r) \<leftarrow> many1 is_space r; r \<leftarrow> lit ''minimum'' r;
          (w, r) \<leftarrow> many1 is_space r; (g3, r) \<leftarrow> signed_digits r;
          (w, r) \<leftarrow> many1 is_space r; r \<leftarrow> lit ''maximum'' r;
          (w, r) \<leftarrow> many1 is_space r; (g4, r) \<leftarrow> signed_digits r;
          eos r; Some (g1, g2, g3, g4) }"

section \<open>The help-text parsers\<close>

text \<open>
  The dictionary a parser builds is an association list in insertion order:
  \<^verbatim>\<open>d.get(k)\<close> is \<^term>\<open>map_of d k\<close> and \<^verbatim>\<open>d[k] = v\<close> is \<^term>\<open>AList.update k v d\<close> (an
  existing key keeps its place, a new one goes last). The state of a parse is the
  dictionary (\<open>opts\<close> for the source's \<^verbatim>\<open>options\<close>, and \<open>params\<close>) and the warnings logged so
  far.
\<close>

datatype warning =
    Alignment_not_handled string
  | Unknown_optimization_flag string
  | Unknown_param_flag string

type_synonym parse_state = "(string \<times> Option) list \<times> warning list"

text \<open>A \<^verbatim>\<open>for\<close> loop over a list whose body can raise.\<close>

fun for_each :: "('a \<Rightarrow> 's \<Rightarrow> error + 's) \<Rightarrow> 'a list \<Rightarrow> 's \<Rightarrow> error + 's" where
  "for_each f [] s = Inr s"
| "for_each f (x # xs) s = (case f x s of Inl e \<Rightarrow> Inl e | Inr s' \<Rightarrow> for_each f xs s')"

text \<open>
  The synthetic upper bound of both parsers is written \<^verbatim>\<open>2 << 31 - 1\<close>. In Python the
  subtraction binds tighter than the shift: the value is \<^verbatim>\<open>2 << (31 - 1)\<close>.
\<close>

definition unbounded_max :: int where
  "unbounded_max = push_bit (31 - 1) 2"

subsection \<open>\<^verbatim>\<open>_gcc_parse_optimize\<close>\<close>

definition add_gcc_o :: "string \<Rightarrow> parse_state \<Rightarrow> error + parse_state" where
  "add_gcc_o v st =
     (case st of (opts, warns) \<Rightarrow>
        (case (case map_of opts ''O'' of None \<Rightarrow> GccOOption [] | Some opt \<Rightarrow> opt) of
           GccOOption vals \<Rightarrow> Inr (AList.update ''O'' (GccOOption (vals @ [v])) opts, warns)
         | _ \<Rightarrow> Inl AssertionError))"

definition add_gcc_flag :: "string \<Rightarrow> parse_state \<Rightarrow> error + parse_state" where
  "add_gcc_flag name st =
     (case st of (opts, warns) \<Rightarrow>
        Inr (AList.update name
               (case map_of opts name of None \<Rightarrow> GccFlagOption name False | Some opt \<Rightarrow> opt)
               opts, warns))"

text \<open>
  The three lines shared by \<^verbatim>\<open>add_gcc_flag_enum\<close>, \<^verbatim>\<open>add_gcc_flag_int\<close> and
  \<^verbatim>\<open>add_gcc_flag_align\<close>:
  \<^verbatim>\<open>opt = options.get(name)\<close>, \<^verbatim>\<open>if opt:\<close>, \<^verbatim>\<open>assert type(opt) == GccFlagOption\<close>.
  The test \<^verbatim>\<open>if opt:\<close> is the truth value of the entry, not \<^verbatim>\<open>opt is not None\<close>.
\<close>

definition overwrite_check :: "Option option \<Rightarrow> error + unit" where
  "overwrite_check opt =
     (case opt of
        None \<Rightarrow> Inr ()
      | Some x \<Rightarrow>
          (case truthy x of
             Inl e \<Rightarrow> Inl e
           | Inr True \<Rightarrow> (case x of GccFlagOption name no_fno \<Rightarrow> Inr () | _ \<Rightarrow> Inl AssertionError)
           | Inr False \<Rightarrow> Inr ()))"

definition add_gcc_flag_enum :: "string \<Rightarrow> string list \<Rightarrow> parse_state \<Rightarrow> error + parse_state" where
  "add_gcc_flag_enum name vals st =
     (case st of (opts, warns) \<Rightarrow>
        (case overwrite_check (map_of opts name) of
           Inl e \<Rightarrow> Inl e
         | Inr u \<Rightarrow> Inr (AList.update name (GccFlagEnumOption name vals) opts, warns)))"

definition add_gcc_flag_int :: "string \<Rightarrow> int \<Rightarrow> int \<Rightarrow> parse_state \<Rightarrow> error + parse_state" where
  "add_gcc_flag_int name mn mx st =
     (case st of (opts, warns) \<Rightarrow>
        (case overwrite_check (map_of opts name) of
           Inl e \<Rightarrow> Inl e
         | Inr u \<Rightarrow> Inr (AList.update name (GccFlagIntOption name mn mx) opts, warns)))"

text \<open>The constructor of \<^verbatim>\<open>GccFlagAlignOption\<close> logs a warning.\<close>

definition add_gcc_flag_align :: "string \<Rightarrow> parse_state \<Rightarrow> error + parse_state" where
  "add_gcc_flag_align name st =
     (case st of (opts, warns) \<Rightarrow>
        (case overwrite_check (map_of opts name) of
           Inl e \<Rightarrow> Inl e
         | Inr u \<Rightarrow> Inr (AList.update name (GccFlagAlignOption name) opts,
                          warns @ [Alignment_not_handled name])))"

text \<open>
  \<^verbatim>\<open>parse_line\<close> of the optimization parser: the patterns are tried in the order of the
  source, the first that matches returns.
\<close>

definition parse_line_optimize :: "string \<Rightarrow> parse_state \<Rightarrow> error + parse_state" where
  "parse_line_optimize line st =
     (case split_ws line of
        [] \<Rightarrow> Inr st
      | spec # bits \<Rightarrow>
     (case O_num_pat spec of
        Some u \<Rightarrow> for_each (\<lambda>i. add_gcc_o (str_int i)) (map int [0..<4]) st
      | None \<Rightarrow>
     (case O_pat spec of
        Some g1 \<Rightarrow> add_gcc_o g1 st
      | None \<Rightarrow>
     (case flag_align_eq_pat spec of
        Some name \<Rightarrow> add_gcc_flag_align name st
      | None \<Rightarrow>
     (case flag_pat spec of
        Some name \<Rightarrow> add_gcc_flag name st
      | None \<Rightarrow>
     (case flag_enum_pat spec of
        Some (name, g2) \<Rightarrow> add_gcc_flag_enum name (split_sep CHR ''|'' g2) st
      | None \<Rightarrow>
     (case flag_interval_pat spec of
        Some (name, g2, g3) \<Rightarrow>
          (case (py_int g2, py_int g3) of
             (Some mn, Some mx) \<Rightarrow> add_gcc_flag_int name mn mx st
           | _ \<Rightarrow> Inl ValueError)
      | None \<Rightarrow>
     (case flag_number_pat spec of
        Some name \<Rightarrow> add_gcc_flag_int name 0 unbounded_max st
      | None \<Rightarrow>
          Inr (fst st, snd st @ [Unknown_optimization_flag line])))))))))"

text \<open>
  What \<^verbatim>\<open>_gcc_parse_optimize\<close> does with the output of \<^verbatim>\<open>gcc --help=optimize -Q\<close>: the
  first line is dropped, every other line is stripped and parsed, and the values of the
  dictionary are returned in the order of their keys. The keys of a dictionary differ, so
  \<^verbatim>\<open>sorted\<close> never compares two options.
\<close>

definition parse_optimize_output :: "string \<Rightarrow> error + Option list \<times> warning list" where
  "parse_optimize_output result =
     (case for_each (\<lambda>line. parse_line_optimize (strip line))
             (drop 1 (split_sep CHR 0x0A result)) ([], []) of
        Inl e \<Rightarrow> Inl e
      | Inr (opts, warns) \<Rightarrow> Inr (map snd (sort_key fst opts), warns))"

definition gcc_parse_optimize :: "Gcc \<Rightarrow> error + Option list \<times> warning list" where
  "gcc_parse_optimize g =
     (case call g [''--help=optimize'', ''-Q''] of
        Inl e \<Rightarrow> Inl e
      | Inr result \<Rightarrow> parse_optimize_output result)"

subsection \<open>\<^verbatim>\<open>_gcc_parse_params\<close>\<close>

text \<open>\<^verbatim>\<open>opt = params.get(name)\<close>, \<^verbatim>\<open>assert not opt\<close>.\<close>

definition assert_not :: "Option option \<Rightarrow> error + unit" where
  "assert_not opt =
     (case opt of
        None \<Rightarrow> Inr ()
      | Some x \<Rightarrow>
          (case truthy x of
             Inl e \<Rightarrow> Inl e
           | Inr True \<Rightarrow> Inl AssertionError
           | Inr False \<Rightarrow> Inr ()))"

definition add_gcc_param_enum :: "string \<Rightarrow> string list \<Rightarrow> parse_state \<Rightarrow> error + parse_state" where
  "add_gcc_param_enum name vals st =
     (case st of (params, warns) \<Rightarrow>
        (case assert_not (map_of params name) of
           Inl e \<Rightarrow> Inl e
         | Inr u \<Rightarrow> Inr (AList.update name (GccParamEnumOption name vals) params, warns)))"

definition add_gcc_param_int :: "string \<Rightarrow> int \<Rightarrow> int \<Rightarrow> parse_state \<Rightarrow> error + parse_state" where
  "add_gcc_param_int name mn mx st =
     (case st of (params, warns) \<Rightarrow>
        (case assert_not (map_of params name) of
           Inl e \<Rightarrow> Inl e
         | Inr u \<Rightarrow> Inr (AList.update name (GccParamIntOption name mn mx) params, warns)))"

text \<open>
  The four \<^verbatim>\<open>if m:\<close> blocks of the parameter parser's \<^verbatim>\<open>parse_line\<close>. A block that
  returns gives \<open>Some\<close> of its outcome; \<open>None\<close> means that control falls through to the next
  block (the pattern did not match, or the inner \<^verbatim>\<open>if\<close> was false).
\<close>

definition param_enum_block :: "string \<Rightarrow> string \<Rightarrow> parse_state \<Rightarrow> (error + parse_state) option" where
  "param_enum_block spec dflt st =
     (case param_enum_pat spec of
        None \<Rightarrow> None
      | Some (name, g2) \<Rightarrow>
          Some (if dflt = [] \<or> dflt \<in> set (split_sep CHR ''|'' g2)
                then add_gcc_param_enum name (split_sep CHR ''|'' g2) st
                else Inl AssertionError))"

definition param_interval_block :: "string \<Rightarrow> string \<Rightarrow> parse_state \<Rightarrow> (error + parse_state) option" where
  "param_interval_block spec dflt st =
     (case param_interval_pat spec of
        None \<Rightarrow> None
      | Some (name, g2, g3) \<Rightarrow>
          (case (py_int g2, py_int g3) of
             (Some mn, Some mx) \<Rightarrow>
               (case py_int dflt of
                  None \<Rightarrow> None
                | Some d \<Rightarrow>
                    Some (if dflt = [] \<or> (mn \<le> d \<and> d \<le> mx)
                          then add_gcc_param_int name mn mx st
                          else Inl AssertionError))
           | _ \<Rightarrow> Some (Inl ValueError)))"

definition param_number_block :: "string \<Rightarrow> string \<Rightarrow> parse_state \<Rightarrow> (error + parse_state) option" where
  "param_number_block spec dflt st =
     (case param_number_pat spec of
        None \<Rightarrow> None
      | Some name \<Rightarrow>
          (case py_int dflt of
             None \<Rightarrow> None
           | Some d \<Rightarrow> Some (add_gcc_param_int name (if d \<ge> 0 then 0 else d) unbounded_max st)))"

definition param_old_interval_block :: "string \<Rightarrow> parse_state \<Rightarrow> (error + parse_state) option" where
  "param_old_interval_block line st =
     (case param_old_interval_pat line of
        None \<Rightarrow> None
      | Some (name, g2, g3, g4) \<Rightarrow>
          (case (py_int g2, py_int g3, py_int g4) of
             (Some d, Some mn, Some mx) \<Rightarrow>
               (if mn \<le> d \<and> d \<le> mx then Some (add_gcc_param_int name mn mx st) else None)
           | _ \<Rightarrow> Some (Inl ValueError)))"

definition parse_line_params :: "string \<Rightarrow> parse_state \<Rightarrow> error + parse_state" where
  "parse_line_params line st =
     (case split_ws line of
        [] \<Rightarrow> Inr st
      | [spec] \<Rightarrow> Inr st
      | spec # dflt # bits \<Rightarrow>
     (case param_enum_block spec dflt st of
        Some r \<Rightarrow> r
      | None \<Rightarrow>
     (case param_interval_block spec dflt st of
        Some r \<Rightarrow> r
      | None \<Rightarrow>
     (case param_number_block spec dflt st of
        Some r \<Rightarrow> r
      | None \<Rightarrow>
     (case param_old_interval_block line st of
        Some r \<Rightarrow> r
      | None \<Rightarrow>
          Inr (fst st, snd st @ [Unknown_param_flag line]))))))"

definition parse_params_output :: "string \<Rightarrow> error + Option list \<times> warning list" where
  "parse_params_output result =
     (case for_each (\<lambda>line. parse_line_params (strip line))
             (drop 1 (split_sep CHR 0x0A result)) ([], []) of
        Inl e \<Rightarrow> Inl e
      | Inr (params, warns) \<Rightarrow> Inr (map snd (sort_key fst params), warns))"

definition gcc_parse_params :: "Gcc \<Rightarrow> error + Option list \<times> warning list" where
  "gcc_parse_params g =
     (case call g [''--help=param'', ''-Q''] of
        Inl e \<Rightarrow> Inl e
      | Inr result \<Rightarrow> parse_params_output result)"

section \<open>\<^verbatim>\<open>_fix_options\<close>\<close>

fun keep :: "Option \<Rightarrow> bool" where
  "keep (GccFlagEnumOption name vals) = (name \<noteq> ''live-patching'')"
| "keep opt = True"

text \<open>
  The body of the loop over the kept options. The loop changes the fields of an option in
  place and replaces the entry of \<^verbatim>\<open>pack-struct\<close>; the list that is returned holds, at each
  index, \<open>fix_option\<close> of what was there.
\<close>

fun fix_option :: "Option \<Rightarrow> Option" where
  "fix_option (GccParamIntOption name mn mx) =
     (if name \<in> set [''logical-op-non-short-circuit'', ''prefetch-minimum-stride'',
                      ''sched-autopref-queue-depth'', ''vect-max-peeling-for-alignment'']
      then GccParamIntOption name 0 mx
      else GccParamIntOption name mn mx)"
| "fix_option (GccFlagOption name no_fno) =
     (let name1 = (if name = ''handle-exceptions'' then ''exceptions'' else name);
          no_fno1 = (if name1 \<in> set [''stack-protector-all'', ''stack-protector-explicit'',
                                       ''stack-protector-strong'']
                     then True else no_fno);
          name2 = (if name1 = ''no-threadsafe-statics'' then ''threadsafe-statics'' else name1)
      in GccFlagOption name2 no_fno1)"
| "fix_option (GccFlagIntOption name mn mx) =
     (if name = ''pack-struct''
      then GccFlagEnumOption ''pack-struct'' (map (\<lambda>j. str_int (push_bit j 1)) [0..<5])
      else GccFlagIntOption name mn mx)"
| "fix_option opt = opt"

definition fix_options :: "Option list \<Rightarrow> Option list" where
  "fix_options opts = map fix_option (filter keep opts)"

section \<open>Version, cache and \<^verbatim>\<open>_get_spec\<close>\<close>

text \<open>
  \<^verbatim>\<open>_gcc_get_version\<close>: the \<^verbatim>\<open>try\<close> body, then the handler, which turns a
  \<^verbatim>\<open>subprocess.SubprocessError\<close> into \<^verbatim>\<open>None\<close> and lets every other exception pass.
\<close>

definition gcc_get_version :: "Gcc \<Rightarrow> error + string option" where
  "gcc_get_version g =
     (case (case call g [''--version''] of
              Inl e \<Rightarrow> Inl e
            | Inr result \<Rightarrow>
                (case split_sep CHR 0x0A result of
                   [] \<Rightarrow> Inl IndexError
                 | ver # rest \<Rightarrow>
                     if \<not> contains ''gcc'' ver then Inl ServiceError else Inr ver)) of
        Inl e \<Rightarrow> if is_SubprocessError e then Inr None else Inl e
      | Inr ver \<Rightarrow> Inr (Some ver))"

text \<open>\<^verbatim>\<open>_version_hash\<close>; \<^verbatim>\<open>2 << 64\<close> is \<open>push_bit 64 2\<close>.\<close>

definition version_hash :: "string \<Rightarrow> string" where
  "version_hash ver =
     str_int (foldl (\<lambda>h c. of_char c + 31 * h) 0 ver mod push_bit 64 2)"

text \<open>
  The cache directory, by the hash that names the subdirectory of a \<^verbatim>\<open>spec.pkl\<close>: no file,
  a file that unpickles to a spec, or a file on which \<^verbatim>\<open>pickle.load\<close> raises. Writing a
  file is taken to succeed.
\<close>

datatype cache_file = Pickled GccSpec | Unreadable error

type_synonym cache = "string \<Rightarrow> cache_file option"

definition read_cached :: "Gcc \<Rightarrow> cache \<Rightarrow> string \<Rightarrow> error + GccSpec option" where
  "read_cached g cache spec_path =
     (case cache spec_path of
        None \<Rightarrow> Inr None
      | Some (Pickled spec) \<Rightarrow> Inr (Some (spec\<lparr>gcc := g\<rparr>))
      | Some (Unreadable e) \<Rightarrow>
          if e = UnpicklingError \<or> e = EOFError then Inr None else Inl e)"

text \<open>The last two statements: the size is computed for the log, and the spec returned.\<close>

definition return_spec :: "GccSpec \<Rightarrow> cache \<Rightarrow> (error + GccSpec option) \<times> cache" where
  "return_spec spec cache =
     (case size_spec spec of
        Inl e \<Rightarrow> (Inl e, cache)
      | Inr sz \<Rightarrow> (Inr (Some spec), cache))"

definition get_spec :: "Gcc \<Rightarrow> cache \<Rightarrow> (error + GccSpec option) \<times> cache" where
  "get_spec g cache =
     (case gcc_get_version g of
        Inl e \<Rightarrow> (Inl e, cache)
      | Inr None \<Rightarrow> (Inr None, cache)
      | Inr (Some ver) \<Rightarrow>
          if ver = [] then (Inr None, cache)
          else
            (case read_cached g cache (version_hash ver) of
               Inl e \<Rightarrow> (Inl e, cache)
             | Inr (Some spec) \<Rightarrow> return_spec spec cache
             | Inr None \<Rightarrow>
                 (case gcc_parse_optimize g of
                    Inl e \<Rightarrow> (Inl e, cache)
                  | Inr (optim_opts, w1) \<Rightarrow>
                      (case gcc_parse_params g of
                         Inl e \<Rightarrow> (Inl e, cache)
                       | Inr (param_opts, w2) \<Rightarrow>
                           (let spec = \<lparr>gcc = g, version = ver,
                                        options = fix_options (optim_opts @ param_opts)\<rparr>
                            in if options spec = [] then (Inr None, cache)
                               else return_spec spec
                                      (cache(version_hash ver \<mapsto> Pickled spec)))))))"

section \<open>What the properties are stated with\<close>

text \<open>
  The spec's table of literals, index by index:
  \<^verbatim>\<open>"-O" + suffix[i]\<close>; \<^verbatim>\<open>i=0 -> "-f{name}"; i=1 -> "-fno-{name}"\<close>;
  \<^verbatim>\<open>"-f{name}={values[i]}"\<close>; \<^verbatim>\<open>"-f{name}={min+i}"\<close>; \<^verbatim>\<open>"-f{name}"\<close>;
  \<^verbatim>\<open>"--param={name}={values[i]}"\<close>; \<^verbatim>\<open>"--param={name}={min+i}"\<close>.
\<close>

fun template :: "Option \<Rightarrow> nat \<Rightarrow> string" where
  "template (GccOOption suffix) i = ''-O'' @ suffix ! i"
| "template (GccFlagOption name no_fno) i = (if i = 0 then ''-f'' @ name else ''-fno-'' @ name)"
| "template (GccFlagEnumOption name vals) i = ''-f'' @ name @ ''='' @ vals ! i"
| "template (GccFlagIntOption name mn mx) i = ''-f'' @ name @ ''='' @ str_int (mn + int i)"
| "template (GccFlagAlignOption name) i = ''-f'' @ name"
| "template (GccParamEnumOption name vals) i = ''--param='' @ name @ ''='' @ vals ! i"
| "template (GccParamIntOption name mn mx) i = ''--param='' @ name @ ''='' @ str_int (mn + int i)"

text \<open>The value list of an option, where it has one, holds no value twice.\<close>

fun distinct_values :: "Option \<Rightarrow> bool" where
  "distinct_values (GccOOption vals) = distinct vals"
| "distinct_values (GccFlagEnumOption name vals) = distinct vals"
| "distinct_values (GccParamEnumOption name vals) = distinct vals"
| "distinct_values opt = True"

text \<open>
  The key under which a parser files an option: \<^verbatim>\<open>"O"\<close> for the optimization levels, the
  \<^verbatim>\<open>name\<close> it was constructed with for every other option.
\<close>

fun key_of :: "Option \<Rightarrow> string" where
  "key_of (GccOOption vals) = ''O''"
| "key_of (GccFlagOption name no_fno) = name"
| "key_of (GccFlagEnumOption name vals) = name"
| "key_of (GccFlagIntOption name mn mx) = name"
| "key_of (GccFlagAlignOption name) = name"
| "key_of (GccParamEnumOption name vals) = name"
| "key_of (GccParamIntOption name mn mx) = name"

text \<open>The shape of a group matched by \<^verbatim>\<open>-?[0-9]+\<close>: digits, after a minus sign or not.\<close>

definition signed_shape :: "string \<Rightarrow> bool" where
  "signed_shape g \<longleftrightarrow> (\<exists>ds. ds \<noteq> [] \<and> (\<forall>c\<in>set ds. is_digit c) \<and> (g = ds \<or> g = CHR ''-'' # ds))"

text \<open>
  The invariant of a parser's dictionary: no key twice, and every option under its own key.
\<close>

definition keyed :: "(string \<times> Option) list \<Rightarrow> bool" where
  "keyed d \<longleftrightarrow> distinct (map fst d) \<and> (\<forall>p\<in>set d. key_of (snd p) = fst p)"

text \<open>
  A cache whose every readable file holds a spec with options, on which the fixups change
  nothing.
\<close>

definition cache_ok :: "cache \<Rightarrow> bool" where
  "cache_ok c \<longleftrightarrow>
     (\<forall>k spec. c k = Some (Pickled spec) \<longrightarrow>
        options spec \<noteq> [] \<and> fix_options (options spec) = options spec)"

text \<open>
  The states of the cache directory: it starts empty, \<^verbatim>\<open>_get_spec\<close> is its only writer, and
  a file may get damaged at any time.
\<close>

inductive reachable :: "cache \<Rightarrow> bool" where
  empty: "reachable Map.empty"
| discovery: "reachable c \<Longrightarrow> get_spec g c = (r, c') \<Longrightarrow> reachable c'"
| damage: "reachable c \<Longrightarrow> reachable (c(k \<mapsto> Unreadable e))"

text \<open>
  A compiler for the examples: it answers the three queries of \<^verbatim>\<open>_get_spec\<close> with the given
  texts and fails on every other command line.
\<close>

definition gcc_with_outputs :: "string \<Rightarrow> string \<Rightarrow> string \<Rightarrow> Gcc" where
  "gcc_with_outputs version_out optimize_out param_out =
     \<lparr>bin = ''gcc'',
      call = (\<lambda>args.
        if args = [''--version''] then Inr version_out
        else if args = [''--help=optimize'', ''-Q''] then Inr optimize_out
        else if args = [''--help=param'', ''-Q''] then Inr param_out
        else Inl ServiceError)\<rparr>"

text \<open>A compiler whose every run ends in the given exception.\<close>

definition gcc_raising :: "error \<Rightarrow> Gcc" where
  "gcc_raising e = \<lparr>bin = ''gcc'', call = (\<lambda>args. Inl e)\<rparr>"

section \<open>Evaluating the model on concrete text\<close>

lemmas text_defs = split_sep_def split_ws_def strip_def is_space_def is_digit_def is_lower_def
  is_upper_def py_int_def dec_val_def digit_val_def str_int_def str_nat.simps digit_char_def

lemmas pattern_defs = cls_flag_name_def cls_align_def cls_enum_def cls_param_name_def
  lit_def many1_def eos_def signed_digits_def O_num_pat_def O_pat_def flag_align_eq_pat_def
  flag_pat_def flag_enum_pat_def flag_interval_pat_def flag_number_pat_def param_enum_pat_def
  param_interval_pat_def param_number_pat_def param_old_interval_pat_def

lemmas parser_defs = parse_optimize_output_def parse_params_output_def parse_line_optimize_def
  parse_line_params_def add_gcc_o_def add_gcc_flag_def add_gcc_flag_enum_def
  add_gcc_flag_int_def add_gcc_flag_align_def overwrite_check_def assert_not_def
  add_gcc_param_enum_def add_gcc_param_int_def param_enum_block_def param_interval_block_def
  param_number_block_def param_old_interval_block_def truthy_def len_def sys_maxsize_def
  unbounded_max_def

lemmas discovery_defs = get_spec_def gcc_get_version_def version_hash_def read_cached_def
  return_spec_def size_spec_def gcc_parse_optimize_def gcc_parse_params_def fix_options_def
  gcc_with_outputs_def gcc_raising_def is_SubprocessError_def Let_def


section \<open>Properties of the option model\<close>

subsection \<open>The decimal form of an integer determines it\<close>

lemma digit_char_inj: "a < 10 \<Longrightarrow> b < 10 \<Longrightarrow> digit_char a = digit_char b \<Longrightarrow> a = b"
proof -
  assume a: "a < 10" and b: "b < 10" and e: "digit_char a = digit_char b"
  have A: "a \<in> {0,1,2,3,4,5,6,7,8,9}" using a by auto
  have B: "b \<in> {0,1,2,3,4,5,6,7,8,9}" using b by auto
  show ?thesis using A B e by (auto simp: digit_char_def)
qed

lemma digit_char_not_minus: "d < 10 \<Longrightarrow> digit_char d \<noteq> CHR ''-''"
proof -
  assume a: "d < 10"
  have A: "d \<in> {0,1,2,3,4,5,6,7,8,9}" using a by auto
  show ?thesis using A by (auto simp: digit_char_def)
qed

lemma str_nat_nonempty: "str_nat n \<noteq> []"
  by (subst str_nat.simps) simp

lemma str_nat_hd: "hd (str_nat n) \<noteq> CHR ''-''"
proof (induction n rule: str_nat.induct)
  case (1 n)
  show ?case
  proof (cases "n < 10")
    case True
    then show ?thesis by (subst str_nat.simps) (simp add: digit_char_not_minus)
  next
    case False
    with 1 show ?thesis by (subst str_nat.simps) (simp add: str_nat_nonempty)
  qed
qed

lemma str_nat_inj: "str_nat m = str_nat n \<Longrightarrow> m = n"
proof (induction m arbitrary: n rule: str_nat.induct)
  case (1 m)
  show ?case
  proof (cases "m < 10")
    case True
    note m = this
    show ?thesis
    proof (cases "n < 10")
      case True
      with m 1(2) show ?thesis
        by (simp add: str_nat.simps[of m] str_nat.simps[of n] digit_char_inj)
    next
      case False
      with m 1(2) show ?thesis
        using str_nat_nonempty[of "n div 10"]
        by (simp add: str_nat.simps[of m] str_nat.simps[of n])
    qed
  next
    case False
    note m = this
    show ?thesis
    proof (cases "n < 10")
      case True
      with m 1(2) show ?thesis
        using str_nat_nonempty[of "m div 10"]
        by (simp add: str_nat.simps[of m] str_nat.simps[of n])
    next
      case False
      with m 1(2) have e: "str_nat (m div 10) = str_nat (n div 10)"
        and d: "digit_char (m mod 10) = digit_char (n mod 10)"
        by (simp_all add: str_nat.simps[of m] str_nat.simps[of n])
      from 1(1)[OF m e] have q: "m div 10 = n div 10" .
      from d have r: "m mod 10 = n mod 10" by (intro digit_char_inj) simp_all
      from q r show ?thesis by (metis div_mult_mod_eq)
    qed
  qed
qed

lemma str_int_inj: "str_int i = str_int j \<Longrightarrow> i = j"
proof -
  assume e: "str_int i = str_int j"
  have neg: "CHR ''-'' # xs \<noteq> str_nat n" for xs n
    using str_nat_hd[of n] by (metis list.sel(1))
  show ?thesis
  proof (cases "i < 0")
    case True
    note i = this
    show ?thesis
    proof (cases "j < 0")
      case True
      with i e have "nat (- i) = nat (- j)" by (simp add: str_int_def str_nat_inj)
      with i True show ?thesis by simp
    next
      case False
      with i e neg show ?thesis by (simp add: str_int_def)
    qed
  next
    case False
    note i = this
    show ?thesis
    proof (cases "j < 0")
      case True
      with i e neg[of "str_nat (nat (- j))" "nat i"] show ?thesis by (simp add: str_int_def)
    next
      case False
      with i e have "nat i = nat j" by (simp add: str_int_def str_nat_inj)
      with i False show ?thesis by simp
    qed
  qed
qed

subsection \<open>Indexing an option\<close>

lemma len_Inr: "len opt = Inr n \<Longrightarrow> n = Option_len opt \<and> 0 \<le> n"
  by (auto simp: len_def Let_def split: if_splits)

lemma list_getitem_in_range:
  "0 \<le> i \<Longrightarrow> i < int (length xs) \<Longrightarrow> list_getitem xs i = Inr (xs ! nat i)"
  by (simp add: list_getitem_def)

lemma getitem_in_range:
  assumes "len opt = Inr n" "0 \<le> i" "i < n"
  shows "Option_getitem opt i = Inr (template opt (nat i))"
proof -
  from assms(1) have n: "n = Option_len opt" by (simp add: len_Inr)
  show ?thesis
  proof (cases opt)
    case (GccFlagOption name no_fno)
    with assms n have "i = 0 \<or> i = 1" by (auto split: if_splits)
    with GccFlagOption show ?thesis by auto
  qed (use assms n in \<open>simp_all add: list_getitem_in_range\<close>)
qed

lemma nth_inj_distinct:
  "(\<forall>i j. 0 \<le> i \<and> i < int (length xs) \<and> 0 \<le> j \<and> j < int (length xs) \<and> i \<noteq> j
      \<longrightarrow> xs ! nat i \<noteq> xs ! nat j) \<longleftrightarrow> distinct xs"
proof
  assume h: "\<forall>i j. 0 \<le> i \<and> i < int (length xs) \<and> 0 \<le> j \<and> j < int (length xs) \<and> i \<noteq> j
      \<longrightarrow> xs ! nat i \<noteq> xs ! nat j"
  show "distinct xs"
    unfolding distinct_conv_nth
  proof (intro allI impI)
    fix a b assume a: "a < length xs" and b: "b < length xs" and ab: "a \<noteq> b"
    from h[rule_format, of "int a" "int b"] a b ab show "xs ! a \<noteq> xs ! b" by simp
  qed
next
  assume d: "distinct xs"
  show "\<forall>i j. 0 \<le> i \<and> i < int (length xs) \<and> 0 \<le> j \<and> j < int (length xs) \<and> i \<noteq> j
      \<longrightarrow> xs ! nat i \<noteq> xs ! nat j"
  proof (intro allI impI)
    fix i j assume "0 \<le> i \<and> i < int (length xs) \<and> 0 \<le> j \<and> j < int (length xs) \<and> i \<noteq> j"
    then have "nat i < length xs" "nat j < length xs" "nat i \<noteq> nat j" by auto
    with d show "xs ! nat i \<noteq> xs ! nat j" by (simp add: nth_eq_iff_index_eq)
  qed
qed

lemma getitem_distinct_iff:
  assumes "len opt = Inr n"
  shows "(\<forall>i j. 0 \<le> i \<and> i < n \<and> 0 \<le> j \<and> j < n \<and> i \<noteq> j
            \<longrightarrow> Option_getitem opt i \<noteq> Option_getitem opt j) \<longleftrightarrow> distinct_values opt"
proof -
  from assms have n: "n = Option_len opt" by (simp add: len_Inr)
  show ?thesis
  proof (cases opt)
    case (GccOOption vals)
    with n nth_inj_distinct[of vals] show ?thesis
      by (simp add: list_getitem_in_range)
  next
    case (GccFlagOption name no_fno)
    with n show ?thesis by auto
  next
    case (GccFlagEnumOption name vals)
    with n nth_inj_distinct[of vals] show ?thesis
      by (simp add: list_getitem_in_range)
  next
    case (GccFlagIntOption name mn mx)
    then show ?thesis by (auto dest: str_int_inj)
  next
    case (GccFlagAlignOption name)
    with n show ?thesis by auto
  next
    case (GccParamEnumOption name vals)
    with n nth_inj_distinct[of vals] show ?thesis
      by (simp add: list_getitem_in_range)
  next
    case (GccParamIntOption name mn mx)
    then show ?thesis by (auto dest: str_int_inj)
  qed
qed

text \<open>
  C1, as the code has it. For every option on which \<^verbatim>\<open>len\<close> returns \<open>n\<close>, every index in
  \<open>[0, n)\<close> gives the literal of the variant's template. Distinct indices of that range
  give distinct literals exactly when the option's value list holds no value twice, which
  is always so for the variants without a value list (\<^verbatim>\<open>GccFlagOption\<close>,
  \<^verbatim>\<open>GccFlagIntOption\<close>, \<^verbatim>\<open>GccFlagAlignOption\<close>, \<^verbatim>\<open>GccParamIntOption\<close>).
\<close>

theorem option_index_template:
  assumes "len opt = Inr n"
  shows "(\<forall>i. 0 \<le> i \<and> i < n \<longrightarrow> Option_getitem opt i = Inr (template opt (nat i))) \<and>
         ((\<forall>i j. 0 \<le> i \<and> i < n \<and> 0 \<le> j \<and> j < n \<and> i \<noteq> j
            \<longrightarrow> Option_getitem opt i \<noteq> Option_getitem opt j) \<longleftrightarrow> distinct_values opt)"
  using getitem_in_range[OF assms] getitem_distinct_iff[OF assms] by blast

theorem option_index_template_witness:
  "len (GccFlagIntOption ''x'' 3 5) = Inr 3 \<and>
   Option_getitem (GccFlagIntOption ''x'' 3 5) 1 = Inr ''-fx=4'' \<and>
   Option_getitem (GccFlagIntOption ''x'' 3 5) 1 \<noteq> Option_getitem (GccFlagIntOption ''x'' 3 5) 2 \<and>
   distinct_values (GccFlagIntOption ''x'' 3 5)"
proof -
  have l: "len (GccFlagIntOption ''x'' 3 5) = Inr 3"
    by (simp add: len_def sys_maxsize_def)
  from option_index_template[OF l] show ?thesis
    using l by (simp add: str_int_def str_nat.simps digit_char_def)
qed

text \<open>
  C1 as stated fails: nothing removes a repeated value. The line \<^verbatim>\<open>-ffoo=[a|a]\<close> parses
  to \<^verbatim>\<open>GccFlagEnumOption("foo", ["a", "a"])\<close>, whose two indices give the same literal.
\<close>

theorem duplicate_values_counterexample:
  "parse_optimize_output ''header\<newline>  -ffoo=[a|a]''
     = Inr ([GccFlagEnumOption ''foo'' [''a'', ''a'']], []) \<and>
   len (GccFlagEnumOption ''foo'' [''a'', ''a'']) = Inr 2 \<and>
   Option_getitem (GccFlagEnumOption ''foo'' [''a'', ''a'']) 0 = Inr ''-ffoo=a'' \<and>
   Option_getitem (GccFlagEnumOption ''foo'' [''a'', ''a'']) 1 = Inr ''-ffoo=a''"
  by (simp add: text_defs pattern_defs parser_defs list_getitem_def)

text \<open>
  C9. A \<^verbatim>\<open>GccFlagOption\<close> with \<^verbatim>\<open>no_fno\<close> set has length 1, and index 1, outside
  \<open>[0, 1)\<close>, still returns the negated literal.
\<close>

theorem no_fno_index_unchecked:
  "len (GccFlagOption name True) = Inr 1 \<and>
   Option_getitem (GccFlagOption name True) 1 = Inr (''-fno-'' @ name)"
  by (simp add: len_def sys_maxsize_def)

subsection \<open>The size of a spec\<close>










section \<open>Properties of the fixups\<close>

lemma keep_fix_option: "keep opt \<Longrightarrow> keep (fix_option opt)"
  by (cases opt) (simp_all add: Let_def)

lemma fix_option_idem: "fix_option (fix_option opt) = fix_option opt"
  by (cases opt) (simp_all add: Let_def)

lemma fix_options_idem: "fix_options (fix_options opts) = fix_options opts"
proof -
  have "filter keep (map fix_option (filter keep opts)) = map fix_option (filter keep opts)"
    by (induction opts) (simp_all add: keep_fix_option)
  then show ?thesis
    by (simp add: fix_options_def fix_option_idem)
qed


text \<open>
  C8. Fixing an option list twice gives what fixing it once gives: the same options, with
  the same names, bounds and values, in the same order.
\<close>

theorem fix_options_idempotent: "fix_options (fix_options opts) = fix_options opts"
  by (rule fix_options_idem)


section \<open>Properties of the regular expressions\<close>

lemma lit_SomeD: "lit p s = Some r \<Longrightarrow> s = p @ r"
  by (auto simp: lit_def split: if_splits) (metis append_take_drop_id)

lemma lit_append [simp]: "lit p (p @ r) = Some r"
  by (simp add: lit_def)

lemma many1_SomeD:
  assumes "many1 P s = Some (g, r)"
  shows "s = g @ r \<and> g \<noteq> [] \<and> (\<forall>c\<in>set g. P c) \<and> (r = [] \<or> \<not> P (hd r))"
proof -
  from assms have g: "g = takeWhile P s" and r: "r = dropWhile P s" and ne: "g \<noteq> []"
    by (auto simp: many1_def split: if_splits)
  have "r = [] \<or> \<not> P (hd r)" unfolding r by (metis hd_dropWhile)
  moreover have "\<forall>c\<in>set g. P c" unfolding g by (auto dest: set_takeWhileD)
  ultimately show ?thesis using g r ne by simp
qed

lemma many1_append:
  assumes "g \<noteq> []" "\<forall>c\<in>set g. P c" "r = [] \<or> \<not> P (hd r)"
  shows "many1 P (g @ r) = Some (g, r)"
proof -
  have "takeWhile P (g @ r) = g \<and> dropWhile P (g @ r) = r"
    using assms(2,3) by (cases r) (simp_all add: takeWhile_append2 dropWhile_append2)
  with assms(1) show ?thesis by (simp add: many1_def)
qed

lemma eos_SomeD: "eos s = Some u \<Longrightarrow> s = []"
  by (simp add: eos_def split: if_splits)

lemma bind_SomeD: "Option.bind m f = Some y \<Longrightarrow> \<exists>x. m = Some x \<and> f x = Some y"
  by (cases m) auto

lemma O_num_pat_SomeD: "O_num_pat s = Some u \<Longrightarrow> s = ''-O<number>''"
  unfolding O_num_pat_def
  by (auto dest!: bind_SomeD lit_SomeD eos_SomeD)

lemma O_pat_SomeD: "O_pat s = Some g \<Longrightarrow> s = ''-O'' @ g"
  unfolding O_pat_def
  by (auto dest!: bind_SomeD lit_SomeD eos_SomeD many1_SomeD split: prod.splits)

lemma flag_align_eq_pat_SomeD: "flag_align_eq_pat s = Some n \<Longrightarrow> s = ''-f'' @ n @ ''=''"
  unfolding flag_align_eq_pat_def
  by (auto dest!: bind_SomeD lit_SomeD eos_SomeD many1_SomeD split: prod.splits)

lemma flag_pat_SomeD:
  "flag_pat s = Some n \<Longrightarrow> s = ''-f'' @ n \<and> n \<noteq> [] \<and> (\<forall>c\<in>set n. cls_flag_name c)"
  unfolding flag_pat_def
  by (auto dest!: bind_SomeD lit_SomeD eos_SomeD many1_SomeD split: prod.splits)

lemma flag_enum_pat_SomeD:
  "flag_enum_pat s = Some (n, v) \<Longrightarrow>
   s = ''-f'' @ n @ ''=['' @ v @ '']'' \<and> n \<noteq> [] \<and> (\<forall>c\<in>set n. cls_flag_name c) \<and>
   v \<noteq> [] \<and> (\<forall>c\<in>set v. cls_enum c)"
  unfolding flag_enum_pat_def
  by (auto dest!: bind_SomeD lit_SomeD eos_SomeD many1_SomeD split: prod.splits)

lemma flag_interval_pat_SomeD:
  "flag_interval_pat s = Some (n, a, b) \<Longrightarrow>
   s = ''-f'' @ n @ ''=<'' @ a @ '','' @ b @ ''>'' \<and> n \<noteq> [] \<and> (\<forall>c\<in>set n. cls_flag_name c) \<and>
   a \<noteq> [] \<and> (\<forall>c\<in>set a. is_digit c) \<and> b \<noteq> [] \<and> (\<forall>c\<in>set b. is_digit c)"
  unfolding flag_interval_pat_def
  by (auto dest!: bind_SomeD lit_SomeD eos_SomeD many1_SomeD split: prod.splits)

lemma flag_number_pat_SomeD:
  "flag_number_pat s = Some n \<Longrightarrow>
   s = ''-f'' @ n @ ''=<number>'' \<and> n \<noteq> [] \<and> (\<forall>c\<in>set n. cls_flag_name c)"
  unfolding flag_number_pat_def
  by (auto dest!: bind_SomeD lit_SomeD eos_SomeD many1_SomeD split: prod.splits)

lemma not_cls_flag_name_eq: "\<not> cls_flag_name CHR ''=''"
  by (simp add: cls_flag_name_def is_lower_def is_digit_def)

lemma no_eq_in_flag_name: "\<forall>c\<in>set n. cls_flag_name c \<Longrightarrow> CHR ''='' \<notin> set n"
  using not_cls_flag_name_eq by blast

lemma split_at_first:
  "x \<notin> set xs \<Longrightarrow> x \<notin> set xs' \<Longrightarrow> xs @ x # ys = xs' @ x # ys' \<Longrightarrow> xs = xs' \<and> ys = ys'"
proof (induction xs arbitrary: xs')
  case Nil
  then show ?case by (cases xs') auto
next
  case (Cons a xs)
  then show ?case by (cases xs') auto
qed

lemma flag_number_excludes:
  assumes "flag_number_pat s = Some name"
  shows "O_num_pat s = None" "O_pat s = None" "flag_align_eq_pat s = None" "flag_pat s = None"
    "flag_enum_pat s = None" "flag_interval_pat s = None"
proof -
  from flag_number_pat_SomeD[OF assms]
  have s: "s = ''-f'' @ name @ ''=<number>''" and cls: "\<forall>c\<in>set name. cls_flag_name c" by auto
  have eq: "CHR ''='' \<notin> set name" using cls by (rule no_eq_in_flag_name)
  show "O_num_pat s = None"
    using O_num_pat_SomeD[of s] s by (cases "O_num_pat s") auto
  show "O_pat s = None"
    using O_pat_SomeD[of s] s by (cases "O_pat s") auto
  show "flag_align_eq_pat s = None"
  proof (cases "flag_align_eq_pat s")
    case (Some n)
    from flag_align_eq_pat_SomeD[OF Some] s
    have "last (''-f'' @ n @ ''='') = last (''-f'' @ name @ ''=<number>'')" by simp
    then show ?thesis by simp
  qed simp
  show "flag_pat s = None"
  proof (cases "flag_pat s")
    case (Some n)
    from flag_pat_SomeD[OF Some] s
    have "n = name @ ''=<number>''" and "\<forall>c\<in>set n. cls_flag_name c" by auto
    then show ?thesis using no_eq_in_flag_name[of n] by simp
  qed simp
  show "flag_enum_pat s = None"
  proof (cases "flag_enum_pat s")
    case (Some p)
    obtain n v where p: "p = (n, v)" by (cases p)
    from flag_enum_pat_SomeD[OF Some[unfolded p]] s
    have "last (''-f'' @ n @ ''=['' @ v @ '']'') = last (''-f'' @ name @ ''=<number>'')" by simp
    then show ?thesis by simp
  qed simp
  show "flag_interval_pat s = None"
  proof (cases "flag_interval_pat s")
    case (Some p)
    obtain n a b where p: "p = (n, a, b)" by (cases p)
    from flag_interval_pat_SomeD[OF Some[unfolded p]]
    have s': "s = ''-f'' @ n @ ''=<'' @ a @ '','' @ b @ ''>''"
      and n: "\<forall>c\<in>set n. cls_flag_name c" and a: "a \<noteq> []" "\<forall>c\<in>set a. is_digit c" by auto
    have neq: "CHR ''='' \<notin> set n" using n by (rule no_eq_in_flag_name)
    from s s' have e: "n @ CHR ''='' # (''<'' @ a @ '','' @ b @ ''>'') = name @ CHR ''='' # ''<number>''"
      by simp
    from split_at_first[OF neq eq e]
    have "''<'' @ a @ '','' @ b @ ''>'' = ''<number>''" by (rule conjunct2)
    with a(1) have "hd a = CHR ''n''" by (cases a) simp_all
    moreover have "is_digit (hd a)" using a by simp
    moreover have "\<not> is_digit CHR ''n''" by (simp add: is_digit_def)
    ultimately show ?thesis by simp
  qed simp
qed

lemma parse_line_optimize_number:
  assumes "split_ws line = spec # bits" "flag_number_pat spec = Some name"
  shows "parse_line_optimize line st = add_gcc_flag_int name 0 unbounded_max st"
  using assms flag_number_excludes[OF assms(2)] by (simp add: parse_line_optimize_def)

lemma add_gcc_flag_int_absent:
  "map_of opts name = None \<Longrightarrow>
   add_gcc_flag_int name mn mx (opts, warns) = Inr (AList.update name (GccFlagIntOption name mn mx) opts, warns)"
  by (simp add: add_gcc_flag_int_def overwrite_check_def)

lemma add_gcc_param_int_absent:
  "map_of params name = None \<Longrightarrow>
   add_gcc_param_int name mn mx (params, warns) = Inr (AList.update name (GccParamIntOption name mn mx) params, warns)"
  by (simp add: add_gcc_param_int_def assert_not_def)


lemma is_digit_not_space: "is_digit c \<Longrightarrow> \<not> is_space c"
  by (auto simp: is_digit_def is_space_def)

lemma cls_param_name_not_space: "cls_param_name c \<Longrightarrow> \<not> is_space c"
  by (auto simp: cls_param_name_def is_digit_def is_lower_def is_upper_def is_space_def)

lemma param_enum_pat_SomeD:
  "param_enum_pat s = Some (n, v) \<Longrightarrow> s = ''--param='' @ n @ ''=['' @ v @ '']''"
  unfolding param_enum_pat_def
  by (auto dest!: bind_SomeD lit_SomeD eos_SomeD many1_SomeD split: prod.splits)

lemma signed_digits_SomeD:
  "signed_digits s = Some (g, r) \<Longrightarrow> s = g @ r \<and> signed_shape g"
  unfolding signed_digits_def signed_shape_def
  by (auto dest!: lit_SomeD many1_SomeD split: option.splits prod.splits)

lemma param_interval_pat_SomeD:
  "param_interval_pat s = Some (n, a, b) \<Longrightarrow>
   s = ''--param='' @ n @ ''=<'' @ a @ '','' @ b @ ''>'' \<and> signed_shape a \<and>
   b \<noteq> [] \<and> (\<forall>c\<in>set b. is_digit c)"
  unfolding param_interval_pat_def
  by (auto dest!: bind_SomeD lit_SomeD eos_SomeD many1_SomeD signed_digits_SomeD split: prod.splits)

lemma param_number_pat_SomeD:
  "param_number_pat s = Some n \<Longrightarrow> s = ''--param='' @ n @ ''=''"
  unfolding param_number_pat_def
  by (auto dest!: bind_SomeD lit_SomeD eos_SomeD many1_SomeD split: prod.splits)


lemma signed_shape_Nil [simp]: "\<not> signed_shape []"
  by (auto simp: signed_shape_def)


lemma old_pat_prefix:
  assumes "param_old_interval_pat s = Some (n, d, mn, mx)"
  shows "\<exists>r1 w1 r2 r3 w2 r4. many1 cls_param_name s = Some (n, r1) \<and>
           many1 is_space r1 = Some (w1, r2) \<and> lit ''default'' r2 = Some r3 \<and>
           many1 is_space r3 = Some (w2, r4)"
  using assms unfolding param_old_interval_pat_def
  by (auto dest!: bind_SomeD split: prod.splits)

lemma old_pat_shapes:
  assumes "param_old_interval_pat s = Some (n, d, mn, mx)"
  shows "signed_shape d \<and> signed_shape mn \<and> signed_shape mx"
  using assms unfolding param_old_interval_pat_def
  by (auto dest!: bind_SomeD signed_digits_SomeD split: prod.splits)

lemma param_old_interval_pat_SomeD:
  assumes "param_old_interval_pat s = Some (n, d, mn, mx)"
  shows "\<exists>w1 w2 rest. s = n @ w1 @ ''default'' @ w2 @ rest \<and> n \<noteq> [] \<and>
      (\<forall>c\<in>set n. cls_param_name c) \<and>
      w1 \<noteq> [] \<and> (\<forall>c\<in>set w1. is_space c) \<and> w2 \<noteq> [] \<and> (\<forall>c\<in>set w2. is_space c)"
proof -
  from old_pat_prefix[OF assms] obtain r1 w1 r2 r3 w2 r4 where
    1: "many1 cls_param_name s = Some (n, r1)" and 2: "many1 is_space r1 = Some (w1, r2)"
    and 3: "lit ''default'' r2 = Some r3" and 4: "many1 is_space r3 = Some (w2, r4)" by blast
  from many1_SomeD[OF 1] many1_SomeD[OF 2] lit_SomeD[OF 3] many1_SomeD[OF 4]
  have "s = n @ w1 @ ''default'' @ w2 @ r4 \<and> n \<noteq> [] \<and>
      (\<forall>c\<in>set n. cls_param_name c) \<and>
      w1 \<noteq> [] \<and> (\<forall>c\<in>set w1. is_space c) \<and> w2 \<noteq> [] \<and> (\<forall>c\<in>set w2. is_space c)"
    by simp
  then show ?thesis by blast
qed

section \<open>Properties of the text functions\<close>

lemma strip_id: "s \<noteq> [] \<Longrightarrow> \<not> is_space (hd s) \<Longrightarrow> \<not> is_space (last s) \<Longrightarrow> strip s = s"
proof -
  assume s: "s \<noteq> []" and h: "\<not> is_space (hd s)" and l: "\<not> is_space (last s)"
  from h have 1: "dropWhile is_space s = s" by (simp add: dropWhile_eq_self_iff)
  from s l have "\<not> is_space (hd (rev s))" by (simp add: hd_rev)
  then have 2: "dropWhile is_space (rev s) = rev s" by (simp add: dropWhile_eq_self_iff)
  show ?thesis by (simp add: strip_def 1 2)
qed

lemma not_digit_chars: "\<not> is_digit CHR ''-''" "\<not> is_digit CHR ''+''" "\<not> is_digit CHR ''_''"
  by (simp_all add: is_digit_def)

lemma not_space_minus: "\<not> is_space CHR ''-''"
  by (simp add: is_space_def)

lemma int_body_ok_digits: "ds \<noteq> [] \<Longrightarrow> \<forall>c\<in>set ds. is_digit c \<Longrightarrow> int_body_ok ds"
proof (induction ds rule: int_body_ok.induct)
  case (3 c d r)
  from 3(4) have "is_digit d" by simp
  with not_digit_chars(3) have "d \<noteq> CHR ''_''" by blast
  with 3 show ?case by simp
qed simp_all

lemma py_int_digits:
  assumes "ds \<noteq> []" "\<forall>c\<in>set ds. is_digit c"
  shows "py_int ds = Some (int (dec_val ds))" "py_int (CHR ''-'' # ds) = Some (- int (dec_val ds))"
proof -
  from assms have h: "is_digit (hd ds)" and l: "is_digit (last ds)" by simp_all
  then have "strip ds = ds" using assms(1) by (intro strip_id) (simp_all add: is_digit_not_space)
  moreover have "take 1 ds = [hd ds]" using assms(1) by (cases ds) simp_all
  moreover have "hd ds \<noteq> CHR ''-''" "hd ds \<noteq> CHR ''+''" using h not_digit_chars by auto
  moreover have "filter is_digit ds = ds" using assms(2) by simp
  ultimately show "py_int ds = Some (int (dec_val ds))"
    using int_body_ok_digits[OF assms] by (simp add: py_int_def)
  have "strip (CHR ''-'' # ds) = CHR ''-'' # ds"
    using assms(1) l by (intro strip_id) (simp_all add: is_digit_not_space not_space_minus)
  then show "py_int (CHR ''-'' # ds) = Some (- int (dec_val ds))"
    using int_body_ok_digits[OF assms] \<open>filter is_digit ds = ds\<close> by (simp add: py_int_def)
qed

lemma py_int_signed_shape: "signed_shape g \<Longrightarrow> \<exists>v. py_int g = Some v"
  unfolding signed_shape_def using py_int_digits by blast

lemma py_int_Nil [simp]: "py_int [] = None"
  by (simp add: py_int_def strip_def)

lemma split_acc_token:
  "\<forall>c\<in>set g. \<not> is_space c \<Longrightarrow> is_space w \<Longrightarrow> cur @ g \<noteq> [] \<Longrightarrow>
   split_acc cur (g @ w # rest) = (cur @ g) # split_acc [] rest"
proof (induction g arbitrary: cur)
  case Nil
  then show ?case by simp
next
  case (Cons c g)
  from Cons.prems have c: "\<not> is_space c" and g: "\<forall>c\<in>set g. \<not> is_space c" by simp_all
  have "split_acc (cur @ [c]) (g @ w # rest) = ((cur @ [c]) @ g) # split_acc [] rest"
    by (rule Cons.IH[OF g Cons.prems(2)]) simp
  with c show ?case by simp
qed

lemma split_acc_spaces:
  "\<forall>c\<in>set ws. is_space c \<Longrightarrow> split_acc [] (ws @ rest) = split_acc [] rest"
proof (induction ws)
  case Nil
  show ?case by simp
next
  case (Cons a ws)
  then show ?case by simp
qed

lemma not_space_default: "\<forall>c\<in>set ''default''. \<not> is_space c"
  by (simp add: is_space_def)

lemma split_ws_old_line:
  assumes "n \<noteq> []" "\<forall>c\<in>set n. cls_param_name c"
    "w1 \<noteq> []" "\<forall>c\<in>set w1. is_space c" "w2 \<noteq> []" "\<forall>c\<in>set w2. is_space c"
  shows "\<exists>bits. split_ws (n @ w1 @ ''default'' @ w2 @ rest) = n # ''default'' # bits"
proof -
  obtain a w1' where w1: "w1 = a # w1'" using assms(3) by (cases w1) auto
  obtain b w2' where w2: "w2 = b # w2'" using assms(5) by (cases w2) auto
  have a: "is_space a" and w1': "\<forall>c\<in>set w1'. is_space c" using assms(4) w1 by simp_all
  have b: "is_space b" using assms(6) w2 by simp
  have n: "\<forall>c\<in>set n. \<not> is_space c" using assms(2) cls_param_name_not_space by blast
  have 1: "split_acc [] (n @ a # (w1' @ ''default'' @ b # (w2' @ rest)))
          = ([] @ n) # split_acc [] (w1' @ ''default'' @ b # (w2' @ rest))"
    by (rule split_acc_token[OF n a]) (simp add: assms(1))
  have 2: "split_acc [] (w1' @ (''default'' @ b # (w2' @ rest)))
             = split_acc [] (''default'' @ b # (w2' @ rest))"
    by (rule split_acc_spaces[OF w1'])
  have 3: "split_acc [] (''default'' @ b # (w2' @ rest))
               = ([] @ ''default'') # split_acc [] (w2' @ rest)"
    by (rule split_acc_token[OF not_space_default b]) simp
  have "n @ w1 @ ''default'' @ w2 @ rest = n @ a # (w1' @ ''default'' @ b # (w2' @ rest))"
    by (simp add: w1 w2)
  then have "split_ws (n @ w1 @ ''default'' @ w2 @ rest)
      = n # ''default'' # split_acc [] (w2' @ rest)"
    unfolding split_ws_def using 1 2 3 by (simp only: append_Nil append_assoc)
  then show ?thesis by blast
qed

section \<open>Properties of the optimization parser\<close>

lemma unbounded_max_value: "unbounded_max = 2147483648"
  by (simp add: unbounded_max_def)

subsection \<open>Which entries a sighting replaces\<close>

lemma add_gcc_flag_absent:
  "map_of opts name = None \<Longrightarrow>
   add_gcc_flag name (opts, warns) = Inr (AList.update name (GccFlagOption name False) opts, warns)"
  by (simp add: add_gcc_flag_def)

lemma add_gcc_flag_present:
  "map_of opts name = Some opt \<Longrightarrow> add_gcc_flag name (opts, warns) = Inr (opts, warns)"
  by (simp add: add_gcc_flag_def update_triv)

lemma add_gcc_flag_enum_over_flag:
  "map_of opts name = None \<or> map_of opts name = Some (GccFlagOption n no_fno) \<Longrightarrow>
   add_gcc_flag_enum name vals (opts, warns)
     = Inr (AList.update name (GccFlagEnumOption name vals) opts, warns)"
  by (auto simp: add_gcc_flag_enum_def overwrite_check_def truthy_def len_def sys_maxsize_def)

lemma add_gcc_flag_int_over_flag:
  "map_of opts name = None \<or> map_of opts name = Some (GccFlagOption n no_fno) \<Longrightarrow>
   add_gcc_flag_int name mn mx (opts, warns)
     = Inr (AList.update name (GccFlagIntOption name mn mx) opts, warns)"
  by (auto simp: add_gcc_flag_int_def overwrite_check_def truthy_def len_def sys_maxsize_def)

lemma overwrite_check_specialized:
  "truthy opt = Inr True \<Longrightarrow> \<forall>n no_fno. opt \<noteq> GccFlagOption n no_fno \<Longrightarrow>
   overwrite_check (Some opt) = Inl AssertionError"
  by (cases opt) (auto simp: overwrite_check_def)

lemma overwrite_check_zero_length:
  "Option_len opt = 0 \<Longrightarrow> overwrite_check (Some opt) = Inr ()"
  by (simp add: overwrite_check_def truthy_def len_def sys_maxsize_def)

lemma add_gcc_flag_enum_over_specialized:
  "map_of opts name = Some opt \<Longrightarrow> truthy opt = Inr True \<Longrightarrow>
   \<forall>n no_fno. opt \<noteq> GccFlagOption n no_fno \<Longrightarrow>
   add_gcc_flag_enum name vals (opts, warns) = Inl AssertionError"
  by (simp add: add_gcc_flag_enum_def overwrite_check_specialized)

lemma add_gcc_flag_enum_over_zero_length:
  "map_of opts name = Some opt \<Longrightarrow> Option_len opt = 0 \<Longrightarrow>
   add_gcc_flag_enum name vals (opts, warns)
     = Inr (AList.update name (GccFlagEnumOption name vals) opts, warns)"
  by (simp add: add_gcc_flag_enum_def overwrite_check_zero_length)

text \<open>
  C3, evaluated. The guard before a replacement is \<^verbatim>\<open>if opt:\<close>, the truth value of the
  existing entry, where the comment beside it says that only a straight flag is ever
  overwritten. An interval flag \<^verbatim>\<open>-ffoo=<5,4>\<close> has length 0 and is false: a later
  \<^verbatim>\<open>-ffoo=[a|b]\<close> replaces it with no failure. With \<^verbatim>\<open>-ffoo=<5,5>\<close> in its place the
  assertion fails, and after a plain \<^verbatim>\<open>-ffoo\<close> the enum flag takes the entry, as the spec
  says.
\<close>

theorem zero_length_entry_overwritten:
  "parse_optimize_output ''header\<newline>  -ffoo=<5,4>\<newline>  -ffoo=[a|b]''
     = Inr ([GccFlagEnumOption ''foo'' [''a'', ''b'']], []) \<and>
   parse_optimize_output ''header\<newline>  -ffoo=<5,5>\<newline>  -ffoo=[a|b]'' = Inl AssertionError \<and>
   parse_optimize_output ''header\<newline>  -ffoo\<newline>  -ffoo=[a|b]''
     = Inr ([GccFlagEnumOption ''foo'' [''a'', ''b'']], [])"
  by (simp add: text_defs pattern_defs parser_defs)


section \<open>Properties of the parameter parser\<close>

lemma not_cls_param_name_eq: "\<not> cls_param_name CHR ''=''"
  by (simp add: cls_param_name_def is_lower_def is_upper_def is_digit_def)

lemma lit_param_prefix_None:
  assumes "\<forall>c\<in>set n. cls_param_name c"
  shows "lit ''--param='' n = None"
proof (cases "lit ''--param='' n")
  case (Some r)
  from lit_SomeD[OF Some] have "CHR ''='' \<in> set n" by simp
  with assms not_cls_param_name_eq show ?thesis by blast
qed simp

lemma name_excludes:
  assumes "\<forall>c\<in>set n. cls_param_name c"
  shows "param_enum_pat n = None" "param_interval_pat n = None" "param_number_pat n = None"
  by (simp_all add: param_enum_pat_def param_interval_pat_def param_number_pat_def
        lit_param_prefix_None[OF assms])

lemma param_number_excludes:
  assumes "param_number_pat s = Some name"
  shows "param_enum_pat s = None" "param_interval_pat s = None"
proof -
  from param_number_pat_SomeD[OF assms] have s: "s = ''--param='' @ name @ ''=''" .
  show "param_enum_pat s = None"
  proof (cases "param_enum_pat s")
    case (Some p)
    obtain n v where p: "p = (n, v)" by (cases p)
    from param_enum_pat_SomeD[OF Some[unfolded p]] s
    have "last (''--param='' @ n @ ''=['' @ v @ '']'') = last (''--param='' @ name @ ''='')"
      by simp
    then show ?thesis by simp
  qed simp
  show "param_interval_pat s = None"
  proof (cases "param_interval_pat s")
    case (Some p)
    obtain n a b where p: "p = (n, a, b)" by (cases p)
    from param_interval_pat_SomeD[OF Some[unfolded p]] s
    have "last (''--param='' @ n @ ''=<'' @ a @ '','' @ b @ ''>'') = last (''--param='' @ name @ ''='')"
      by simp
    then show ?thesis by simp
  qed simp
qed

lemma param_interval_excludes:
  assumes "param_interval_pat s = Some (name, a, b)"
  shows "param_enum_pat s = None"
proof (cases "param_enum_pat s")
  case (Some p)
  obtain n v where p: "p = (n, v)" by (cases p)
  from param_enum_pat_SomeD[OF Some[unfolded p]] param_interval_pat_SomeD[OF assms]
  have "last (''--param='' @ n @ ''=['' @ v @ '']'')
          = last (''--param='' @ name @ ''=<'' @ a @ '','' @ b @ ''>'')"
    by simp
  then show ?thesis by simp
qed simp

lemma parse_line_params_number:
  assumes "split_ws line = spec # dflt # bits" "param_number_pat spec = Some name"
    "py_int dflt = Some d"
  shows "parse_line_params line st
           = add_gcc_param_int name (if d \<ge> 0 then 0 else d) unbounded_max st"
  using assms param_number_excludes[OF assms(2)]
  by (simp add: parse_line_params_def param_enum_block_def param_interval_block_def
        param_number_block_def)

lemma parse_line_params_interval:
  assumes "split_ws line = spec # dflt # bits" "param_interval_pat spec = Some (name, a, b)"
    "py_int dflt = Some d"
  shows "\<exists>mn mx. py_int a = Some mn \<and> py_int b = Some mx \<and>
           parse_line_params line st
             = (if mn \<le> d \<and> d \<le> mx then add_gcc_param_int name mn mx st
                else Inl AssertionError)"
proof -
  from param_interval_pat_SomeD[OF assms(2)]
  have a: "signed_shape a" and b: "b \<noteq> []" "\<forall>c\<in>set b. is_digit c" by auto
  from py_int_signed_shape[OF a] obtain mn where mn: "py_int a = Some mn" by blast
  from py_int_digits(1)[OF b] obtain mx where mx: "py_int b = Some mx" by blast
  from assms(3) have ne: "dflt \<noteq> []" by auto
  show ?thesis
    using assms mn mx ne param_interval_excludes[OF assms(2)]
    by (simp add: parse_line_params_def param_enum_block_def param_interval_block_def)
qed

lemma parse_line_params_old:
  assumes "param_old_interval_pat line = Some (name, sd, smn, smx)"
  shows "\<exists>d mn mx. py_int sd = Some d \<and> py_int smn = Some mn \<and> py_int smx = Some mx \<and>
           parse_line_params line st
             = (if mn \<le> d \<and> d \<le> mx then add_gcc_param_int name mn mx st
                else Inr (fst st, snd st @ [Unknown_param_flag line]))"
proof -
  from param_old_interval_pat_SomeD[OF assms] obtain w1 w2 rest where
    line: "line = name @ w1 @ ''default'' @ w2 @ rest" and n: "name \<noteq> []"
    "\<forall>c\<in>set name. cls_param_name c" and w: "w1 \<noteq> []" "\<forall>c\<in>set w1. is_space c"
    "w2 \<noteq> []" "\<forall>c\<in>set w2. is_space c" by blast
  from split_ws_old_line[OF n w, of rest] line obtain bits where
    bits: "split_ws line = name # ''default'' # bits" by blast
  from old_pat_shapes[OF assms] py_int_signed_shape obtain d mn mx where
    v: "py_int sd = Some d" "py_int smn = Some mn" "py_int smx = Some mx" by blast
  show ?thesis
    using bits v assms name_excludes[OF n(2)]
    by (simp add: parse_line_params_def param_enum_block_def param_interval_block_def
          param_number_block_def param_old_interval_block_def)
qed

lemma add_gcc_param_int_present:
  "map_of params name = Some opt \<Longrightarrow> truthy opt = Inr True \<Longrightarrow>
   add_gcc_param_int name mn mx (params, warns) = Inl AssertionError"
  by (simp add: add_gcc_param_int_def assert_not_def)


text \<open>
  C4, as the code has it. A line of the legacy form adds the parameter when its default
  lies within the bounds, and otherwise logs a warning and leaves the parameters as they
  are. A line of the modern form \<^verbatim>\<open>--param=name=<min,max>\<close> with an integer default adds the
  parameter when the default lies within the bounds and fails an assertion when it does
  not. Adding writes \<^verbatim>\<open>GccParamIntOption(name, min, max)\<close> under a name that is not yet
  there, and fails an assertion on a name that holds an option of non-zero length.
\<close>

theorem param_int_default_in_bounds:
  "(param_old_interval_pat line = Some (name, sd, smn, smx) \<longrightarrow>
      (\<exists>d mn mx. py_int sd = Some d \<and> py_int smn = Some mn \<and> py_int smx = Some mx \<and>
         parse_line_params line st
           = (if mn \<le> d \<and> d \<le> mx then add_gcc_param_int name mn mx st
              else Inr (fst st, snd st @ [Unknown_param_flag line])))) \<and>
   (split_ws line = spec # dflt # bits \<and> param_interval_pat spec = Some (name, smn, smx) \<and>
    py_int dflt = Some d \<longrightarrow>
      (\<exists>mn mx. py_int smn = Some mn \<and> py_int smx = Some mx \<and>
         parse_line_params line st
           = (if mn \<le> d \<and> d \<le> mx then add_gcc_param_int name mn mx st
              else Inl AssertionError))) \<and>
   (map_of params name = None \<longrightarrow>
      add_gcc_param_int name mn mx (params, warns)
        = Inr (AList.update name (GccParamIntOption name mn mx) params, warns)) \<and>
   (map_of params name = Some opt \<and> truthy opt = Inr True \<longrightarrow>
      add_gcc_param_int name mn mx (params, warns) = Inl AssertionError)"
  using parse_line_params_old[of line name sd smn smx st]
    parse_line_params_interval[of line spec dflt bits name smn smx d st]
    add_gcc_param_int_absent[of params name mn mx warns]
    add_gcc_param_int_present[of params name opt mn mx warns]
  by blast


theorem param_int_default_in_bounds_witness:
  "parse_line_params ''name default 5 minimum 0 maximum 10'' ([], [])
     = Inr ([(''name'', GccParamIntOption ''name'' 0 10)], []) \<and>
   parse_line_params ''name default 20 minimum 0 maximum 10'' ([], [])
     = Inr ([], [Unknown_param_flag ''name default 20 minimum 0 maximum 10'']) \<and>
   parse_line_params ''--param=foo=<0,10> 5'' ([], [])
     = Inr ([(''foo'', GccParamIntOption ''foo'' 0 10)], []) \<and>
   parse_line_params ''--param=foo=<0,10> 20'' ([], []) = Inl AssertionError \<and>
   parse_line_params ''--param=foo=<0,10> 5'' ([(''foo'', GccParamIntOption ''foo'' 0 10)], [])
     = Inl AssertionError"
proof -
  have p: "py_int ''5'' = Some 5" "py_int ''20'' = Some 20" "py_int ''0'' = Some 0"
    "py_int ''10'' = Some 10"
    by (simp_all add: text_defs)
  have o1: "param_old_interval_pat ''name default 5 minimum 0 maximum 10''
              = Some (''name'', ''5'', ''0'', ''10'')"
    and o2: "param_old_interval_pat ''name default 20 minimum 0 maximum 10''
              = Some (''name'', ''20'', ''0'', ''10'')"
    by (simp_all add: text_defs pattern_defs)
  have m: "param_interval_pat ''--param=foo=<0,10>'' = Some (''foo'', ''0'', ''10'')"
    by (simp add: text_defs pattern_defs)
  have s1: "split_ws ''--param=foo=<0,10> 5'' = [''--param=foo=<0,10>'', ''5'']"
    and s2: "split_ws ''--param=foo=<0,10> 20'' = [''--param=foo=<0,10>'', ''20'']"
    by (simp_all add: text_defs)
  have t: "truthy (GccParamIntOption ''foo'' 0 10) = Inr True"
    by (simp add: truthy_def len_def sys_maxsize_def)
  note T = param_int_default_in_bounds
  from T[where line = "''name default 5 minimum 0 maximum 10''" and name = "''name''"
        and sd = "''5''" and smn = "''0''" and smx = "''10''" and st = "([], [])"
        and params = "[]" and warns = "[]" and mn = 0 and mx = 10]
  have 1: "parse_line_params ''name default 5 minimum 0 maximum 10'' ([], [])
     = Inr ([(''name'', GccParamIntOption ''name'' 0 10)], [])"
    using o1 p by simp
  from T[where line = "''name default 20 minimum 0 maximum 10''" and name = "''name''"
        and sd = "''20''" and smn = "''0''" and smx = "''10''" and st = "([], [])"]
  have 2: "parse_line_params ''name default 20 minimum 0 maximum 10'' ([], [])
     = Inr ([], [Unknown_param_flag ''name default 20 minimum 0 maximum 10''])"
    using o2 p by simp
  from T[where line = "''--param=foo=<0,10> 5''" and spec = "''--param=foo=<0,10>''"
        and dflt = "''5''" and bits = "[]" and name = "''foo''" and smn = "''0''"
        and smx = "''10''" and d = 5 and st = "([], [])"
        and params = "[]" and warns = "[]" and mn = 0 and mx = 10]
  have 3: "parse_line_params ''--param=foo=<0,10> 5'' ([], [])
     = Inr ([(''foo'', GccParamIntOption ''foo'' 0 10)], [])"
    using s1 m p by simp
  from T[where line = "''--param=foo=<0,10> 20''" and spec = "''--param=foo=<0,10>''"
        and dflt = "''20''" and bits = "[]" and name = "''foo''" and smn = "''0''"
        and smx = "''10''" and d = 20 and st = "([], [])"]
  have 4: "parse_line_params ''--param=foo=<0,10> 20'' ([], []) = Inl AssertionError"
    using s2 m p by simp
  from T[where line = "''--param=foo=<0,10> 5''" and spec = "''--param=foo=<0,10>''"
        and dflt = "''5''" and bits = "[]" and name = "''foo''" and smn = "''0''"
        and smx = "''10''" and d = 5
        and st = "([(''foo'', GccParamIntOption ''foo'' 0 10)], [])"
        and params = "[(''foo'', GccParamIntOption ''foo'' 0 10)]" and warns = "[]"
        and opt = "GccParamIntOption ''foo'' 0 10" and mn = 0 and mx = 10]
  have 5: "parse_line_params ''--param=foo=<0,10> 5''
             ([(''foo'', GccParamIntOption ''foo'' 0 10)], []) = Inl AssertionError"
    using s1 m p t by simp
  from 1 2 3 4 5 show ?thesis by blast
qed

text \<open>
  C4 as stated fails on the modern form: a default outside the bounds aborts the parse.
\<close>

theorem modern_default_out_of_bounds_counterexample:
  "parse_params_output ''header\<newline>  --param=foo=<0,10>   20'' = Inl AssertionError"
  by (simp add: text_defs pattern_defs parser_defs)


text \<open>
  C10. The bound \<^verbatim>\<open>2 << 31 - 1\<close> is \<^verbatim>\<open>2 << 30\<close>, that is \<open>2 ^ 31 = 2147483648\<close>, and not
  \<^verbatim>\<open>(2 << 31) - 1\<close>. A flag line \<^verbatim>\<open>-fname=<number>\<close> adds
  \<^verbatim>\<open>GccFlagIntOption(name, 0, 2147483648)\<close>, a parameter line \<^verbatim>\<open>--param=name=\<close> with an
  integer default adds a \<^verbatim>\<open>GccParamIntOption\<close> with the same maximum (and the minimum 0,
  or the default when that is negative); with the minimum 0 such an option has length
  \<open>2 ^ 31 + 1\<close>.
\<close>

theorem unbounded_max_is_2_to_31:
  "unbounded_max = 2147483648 \<and> unbounded_max = 2 ^ 31 \<and> unbounded_max = push_bit 30 2 \<and>
   unbounded_max \<noteq> push_bit 31 2 - 1 \<and> push_bit 31 2 - 1 = (2 ^ 32 - 1 :: int) \<and>
   (split_ws line = spec # bits \<and> flag_number_pat spec = Some name \<longrightarrow>
      parse_line_optimize line st = add_gcc_flag_int name 0 2147483648 st) \<and>
   (map_of opts name = None \<longrightarrow>
      add_gcc_flag_int name 0 2147483648 (opts, warns)
        = Inr (AList.update name (GccFlagIntOption name 0 2147483648) opts, warns)) \<and>
   (split_ws pline = pspec # dflt # pbits \<and> param_number_pat pspec = Some pname \<and>
    py_int dflt = Some d \<longrightarrow>
      parse_line_params pline pst
        = add_gcc_param_int pname (if d \<ge> 0 then 0 else d) 2147483648 pst) \<and>
   (map_of params pname = None \<longrightarrow>
      add_gcc_param_int pname mn 2147483648 (params, pwarns)
        = Inr (AList.update pname (GccParamIntOption pname mn 2147483648) params, pwarns)) \<and>
   len (GccFlagIntOption name 0 2147483648) = Inr (2 ^ 31 + 1) \<and>
   len (GccParamIntOption pname 0 2147483648) = Inr (2 ^ 31 + 1)"
proof -
  have v: "unbounded_max = 2147483648" by (rule unbounded_max_value)
  have l: "len (GccFlagIntOption name 0 2147483648) = Inr (2 ^ 31 + 1)"
    "len (GccParamIntOption pname 0 2147483648) = Inr (2 ^ 31 + 1)"
    by (simp_all add: len_def sys_maxsize_def)
  have c: "unbounded_max = 2 ^ 31" "unbounded_max = push_bit 30 2"
    "unbounded_max \<noteq> push_bit 31 2 - 1" "push_bit 31 2 - 1 = (2 ^ 32 - 1 :: int)"
    by (simp_all add: unbounded_max_def)
  show ?thesis
    using parse_line_optimize_number[of line spec bits name st]
      parse_line_params_number[of pline pspec dflt pbits pname d pst]
      add_gcc_flag_int_absent[of opts name 0 2147483648 warns]
      add_gcc_param_int_absent[of params pname mn 2147483648 pwarns]
      l c
    unfolding v by blast
qed


theorem unbounded_max_is_2_to_31_witness:
  "parse_line_optimize ''-ffoo=<number>'' ([], [])
     = Inr ([(''foo'', GccFlagIntOption ''foo'' 0 2147483648)], []) \<and>
   parse_line_params ''--param=bar= 5'' ([], [])
     = Inr ([(''bar'', GccParamIntOption ''bar'' 0 2147483648)], []) \<and>
   len (GccFlagIntOption ''foo'' 0 2147483648) = Inr 2147483649"
proof -
  have f: "split_ws ''-ffoo=<number>'' = [''-ffoo=<number>'']"
    "flag_number_pat ''-ffoo=<number>'' = Some ''foo''"
    by (simp_all add: text_defs pattern_defs)
  have p: "split_ws ''--param=bar= 5'' = [''--param=bar='', ''5'']"
    "param_number_pat ''--param=bar='' = Some ''bar''" "py_int ''5'' = Some 5"
    by (simp_all add: text_defs pattern_defs)
  from unbounded_max_is_2_to_31[where line = "''-ffoo=<number>''" and spec = "''-ffoo=<number>''"
      and bits = "[]" and name = "''foo''" and st = "([], [])" and opts = "[]" and warns = "[]"
      and pline = "''--param=bar= 5''" and pspec = "''--param=bar=''" and dflt = "''5''"
      and pbits = "[]" and pname = "''bar''" and d = 5 and pst = "([], [])" and params = "[]"
      and pwarns = "[]" and mn = 0]
  show ?thesis using f p by (simp add: unbounded_max_def)
qed

section \<open>Properties of discovery\<close>

lemma gcc_get_version_raises:
  "call g [''--version''] = Inl e \<Longrightarrow>
   gcc_get_version g = (if is_SubprocessError e then Inr None else Inl e)"
  by (simp add: gcc_get_version_def)

lemma gcc_get_version_no_gcc:
  "call g [''--version''] = Inr out \<Longrightarrow> split_sep CHR 0x0A out = first # rest \<Longrightarrow>
   \<not> contains ''gcc'' first \<Longrightarrow> gcc_get_version g = Inl ServiceError"
  by (simp add: gcc_get_version_def is_SubprocessError_def)


text \<open>
  C6, as the code has it. When the version query raises a \<^verbatim>\<open>subprocess.SubprocessError\<close>
  (the timeout of the subprocess), \<^verbatim>\<open>_get_spec\<close> returns \<^verbatim>\<open>None\<close> and leaves the cache as it
  is. Every other exception of the run reaches the caller of \<^verbatim>\<open>_get_spec\<close>, and a first
  output line without \<^verbatim>\<open>gcc\<close> makes it raise \<^verbatim>\<open>ServiceError\<close>.
\<close>

theorem version_failure_outcomes:
  "(call g [''--version''] = Inl e \<and> is_SubprocessError e \<longrightarrow>
      get_spec g cache = (Inr None, cache)) \<and>
   (call g [''--version''] = Inl e \<and> \<not> is_SubprocessError e \<longrightarrow>
      get_spec g cache = (Inl e, cache)) \<and>
   (call g [''--version''] = Inr out \<and> split_sep CHR 0x0A out = first # rest \<and>
    \<not> contains ''gcc'' first \<longrightarrow>
      get_spec g cache = (Inl ServiceError, cache))"
  using gcc_get_version_raises[of g e] gcc_get_version_no_gcc[of g out first rest]
  by (simp add: get_spec_def)

theorem version_failure_outcomes_witness:
  "get_spec (gcc_raising TimeoutExpired) Map.empty = (Inr None, Map.empty) \<and>
   get_spec (gcc_raising TimeoutError) Map.empty = (Inl TimeoutError, Map.empty) \<and>
   get_spec (gcc_with_outputs ''clang version 10.0.0'' ''header'' ''header'') Map.empty
     = (Inl ServiceError, Map.empty)"
proof -
  have 1: "call (gcc_raising TimeoutExpired) [''--version''] = Inl TimeoutExpired"
    "is_SubprocessError TimeoutExpired"
    by (simp_all add: gcc_raising_def is_SubprocessError_def)
  have 2: "call (gcc_raising TimeoutError) [''--version''] = Inl TimeoutError"
    "\<not> is_SubprocessError TimeoutError"
    by (simp_all add: gcc_raising_def is_SubprocessError_def)
  have 3: "call (gcc_with_outputs ''clang version 10.0.0'' ''header'' ''header'') [''--version'']
             = Inr ''clang version 10.0.0''"
    "split_sep CHR 0x0A ''clang version 10.0.0'' = [''clang version 10.0.0'']"
    "\<not> contains ''gcc'' ''clang version 10.0.0''"
    by (simp_all add: gcc_with_outputs_def split_sep_def)
  from version_failure_outcomes[where g = "gcc_raising TimeoutExpired" and e = TimeoutExpired
      and cache = Map.empty]
    version_failure_outcomes[where g = "gcc_raising TimeoutError" and e = TimeoutError
      and cache = Map.empty]
    version_failure_outcomes[where
      g = "gcc_with_outputs ''clang version 10.0.0'' ''header'' ''header''"
      and out = "''clang version 10.0.0''" and first = "''clang version 10.0.0''"
      and rest = "[]" and cache = Map.empty]
  show ?thesis using 1 2 3 by simp
qed


text \<open>
  C6 as stated fails: a version line without \<^verbatim>\<open>gcc\<close> raises \<^verbatim>\<open>ServiceError\<close> inside the
  \<^verbatim>\<open>try\<close>, the handler lets it pass, and \<^verbatim>\<open>_get_spec\<close> raises it to its caller; so does a
  \<^verbatim>\<open>ServiceError\<close> of the run itself.
\<close>

theorem version_without_gcc_counterexample:
  "fst (get_spec (gcc_with_outputs ''clang version 10.0.0'' ''header'' ''header'') Map.empty)
     = Inl ServiceError \<and>
   fst (get_spec (gcc_raising ServiceError) Map.empty) = Inl ServiceError"
  by (simp add: text_defs discovery_defs)

subsection \<open>The outcomes of \<^verbatim>\<open>_get_spec\<close>\<close>

lemma return_spec_cases:
  "return_spec spec c = (r, c') \<Longrightarrow> c' = c \<and> (r = Inr (Some spec) \<or> (\<exists>e. r = Inl e))"
  by (auto simp: return_spec_def split: sum.splits)

lemma read_cached_Some:
  "read_cached g c k = Inr (Some spec) \<Longrightarrow> \<exists>spec0. c k = Some (Pickled spec0) \<and> spec = spec0\<lparr>gcc := g\<rparr>"
  by (auto simp: read_cached_def split: option.splits cache_file.splits if_splits)

lemma get_spec_cases:
  assumes "get_spec g c = (r, c')"
  shows "(c' = c \<and> (r = Inr None \<or> (\<exists>e. r = Inl e))) \<or>
    (\<exists>ver spec0. gcc_get_version g = Inr (Some ver) \<and> c (version_hash ver) = Some (Pickled spec0) \<and> c' = c \<and>
        (r = Inr (Some (spec0\<lparr>gcc := g\<rparr>)) \<or> (\<exists>e. r = Inl e))) \<or>
    (\<exists>ver oo w1 po w2. gcc_get_version g = Inr (Some ver) \<and>
        read_cached g c (version_hash ver) = Inr None \<and>
        gcc_parse_optimize g = Inr (oo, w1) \<and> gcc_parse_params g = Inr (po, w2) \<and>
        fix_options (oo @ po) \<noteq> [] \<and>
        c' = c(version_hash ver \<mapsto>
               Pickled \<lparr>gcc = g, version = ver, options = fix_options (oo @ po)\<rparr>) \<and>
        (r = Inr (Some \<lparr>gcc = g, version = ver, options = fix_options (oo @ po)\<rparr>) \<or>
         (\<exists>e. r = Inl e)))"
proof (cases "gcc_get_version g")
  case (Inl e)
  with assms have "r = Inl e \<and> c' = c" by (simp add: get_spec_def)
  then show ?thesis by blast
next
  case (Inr vo)
  show ?thesis
  proof (cases vo)
    case None
    with Inr assms have "r = Inr None \<and> c' = c" by (simp add: get_spec_def)
    then show ?thesis by blast
  next
    case (Some ver)
    note ver = Inr[unfolded Some]
    show ?thesis
    proof (cases "ver = []")
      case True
      with ver assms have "r = Inr None \<and> c' = c" by (simp add: get_spec_def)
      then show ?thesis by blast
    next
      case False
      note ne = this
      show ?thesis
      proof (cases "read_cached g c (version_hash ver)")
        case (Inl e)
        with ver ne assms have "r = Inl e \<and> c' = c" by (simp add: get_spec_def)
        then show ?thesis by blast
      next
        case (Inr so)
        note rc = this
        show ?thesis
        proof (cases so)
          case (Some spec)
          from read_cached_Some[OF rc[unfolded Some]] obtain spec0 where
            s0: "c (version_hash ver) = Some (Pickled spec0)" "spec = spec0\<lparr>gcc := g\<rparr>" by blast
          from assms ver ne rc Some have "return_spec spec c = (r, c')"
            by (simp add: get_spec_def)
          from return_spec_cases[OF this] s0 ver show ?thesis by blast
        next
          case None
          note miss = rc[unfolded None]
          show ?thesis
          proof (cases "gcc_parse_optimize g")
            case (Inl e)
            with ver ne miss assms have "r = Inl e \<and> c' = c" by (simp add: get_spec_def)
            then show ?thesis by blast
          next
            case (Inr p1)
            obtain oo w1 where p1: "p1 = (oo, w1)" by (cases p1)
            note po1 = Inr[unfolded p1]
            show ?thesis
            proof (cases "gcc_parse_params g")
              case (Inl e)
              with ver ne miss po1 assms have "r = Inl e \<and> c' = c"
                by (simp add: get_spec_def)
              then show ?thesis by blast
            next
              case (Inr p2)
              obtain po w2 where p2: "p2 = (po, w2)" by (cases p2)
              note po2 = Inr[unfolded p2]
              show ?thesis
              proof (cases "fix_options (oo @ po) = []")
                case True
                with ver ne miss po1 po2 assms have "r = Inr None \<and> c' = c"
                  by (simp add: get_spec_def)
                then show ?thesis by blast
              next
                case False
                with ver ne miss po1 po2 assms
                have "return_spec \<lparr>gcc = g, version = ver, options = fix_options (oo @ po)\<rparr>
                        (c(version_hash ver \<mapsto>
                           Pickled \<lparr>gcc = g, version = ver, options = fix_options (oo @ po)\<rparr>))
                      = (r, c')"
                  by (simp add: get_spec_def Let_def)
                from return_spec_cases[OF this] False ver miss po1 po2 show ?thesis by blast
              qed
            qed
          qed
        qed
      qed
    qed
  qed
qed

subsection \<open>The cache holds what discovery wrote\<close>

lemma get_spec_cache_ok:
  assumes "cache_ok c" "get_spec g c = (r, c')"
  shows "cache_ok c' \<and>
    (\<forall>spec. r = Inr (Some spec) \<longrightarrow>
       options spec \<noteq> [] \<and> fix_options (options spec) = options spec)"
proof -
  have new: "cache_ok (c(k \<mapsto> Pickled \<lparr>gcc = g, version = ver, options = fix_options raw\<rparr>))"
    if "fix_options raw \<noteq> []" for k ver raw
    using assms(1) that by (simp add: cache_ok_def fix_options_idem)
  have hit_ok: "options (spec0\<lparr>gcc := g\<rparr>) \<noteq> [] \<and>
      fix_options (options (spec0\<lparr>gcc := g\<rparr>)) = options (spec0\<lparr>gcc := g\<rparr>)"
    if "c k = Some (Pickled spec0)" for k spec0
    using assms(1) that by (simp add: cache_ok_def)
  from get_spec_cases[OF assms(2)] consider
      (none) "c' = c" "r = Inr None \<or> (\<exists>e. r = Inl e)"
    | (hit) ver spec0 where "c (version_hash ver) = Some (Pickled spec0)" "c' = c"
        "r = Inr (Some (spec0\<lparr>gcc := g\<rparr>)) \<or> (\<exists>e. r = Inl e)"
    | (miss) ver oo po where "fix_options (oo @ po) \<noteq> []"
        "c' = c(version_hash ver \<mapsto>
               Pickled \<lparr>gcc = g, version = ver, options = fix_options (oo @ po)\<rparr>)"
        "r = Inr (Some \<lparr>gcc = g, version = ver, options = fix_options (oo @ po)\<rparr>) \<or>
         (\<exists>e. r = Inl e)"
    by blast
  then show ?thesis
  proof cases
    case none
    with assms(1) show ?thesis by auto
  next
    case hit
    with assms(1) hit_ok[of "version_hash ver" spec0] show ?thesis by auto
  next
    case miss
    from new[OF miss(1)] miss(2) have "cache_ok c'" by simp
    with miss(1,3) show ?thesis by (auto simp: fix_options_idem)
  qed
qed

lemma reachable_cache_ok: "reachable c \<Longrightarrow> cache_ok c"
proof (induction rule: reachable.induct)
  case empty
  show ?case by (simp add: cache_ok_def)
next
  case (discovery c g r c')
  from get_spec_cache_ok[OF discovery.IH discovery.hyps(2)] show ?case by simp
next
  case (damage c k e)
  then show ?case by (simp add: cache_ok_def)
qed

lemma get_spec_empty_options:
  assumes "gcc_get_version g = Inr (Some ver)" "read_cached g c (version_hash ver) = Inr None"
    "gcc_parse_optimize g = Inr (oo, w1)" "gcc_parse_params g = Inr (po, w2)"
    "fix_options (oo @ po) = []"
  shows "get_spec g c = (Inr None, c)"
  using assms by (simp add: get_spec_def)


lemma get_spec_writes:
  assumes "get_spec g c = (r, c')" "c' k \<noteq> c k"
  shows "\<exists>spec. c' k = Some (Pickled spec) \<and> options spec \<noteq> [] \<and>
           fix_options (options spec) = options spec"
proof -
  from get_spec_cases[OF assms(1)] assms(2) obtain ver oo po where
    ne: "fix_options (oo @ po) \<noteq> []"
    and c': "c' = c(version_hash ver \<mapsto>
               Pickled \<lparr>gcc = g, version = ver, options = fix_options (oo @ po)\<rparr>)"
    by blast
  from c' assms(2) have "k = version_hash ver" by (auto split: if_splits)
  with c' ne show ?thesis by (simp add: fix_options_idem)
qed

lemma get_spec_miss_result:
  assumes "get_spec g c = (Inr (Some spec), c')" "gcc_get_version g = Inr (Some ver)"
    "read_cached g c (version_hash ver) = Inr None"
  shows "options spec \<noteq> [] \<and> fix_options (options spec) = options spec"
proof -
  from get_spec_cases[OF assms(1)] assms(2,3) obtain oo po where
    "fix_options (oo @ po) \<noteq> []"
    "spec = \<lparr>gcc = g, version = ver, options = fix_options (oo @ po)\<rparr>"
    by (auto simp: read_cached_def)
  then show ?thesis by (simp add: fix_options_idem)
qed


text \<open>
  C7. When the fixed-up parse results are empty, \<^verbatim>\<open>_get_spec\<close> returns \<^verbatim>\<open>None\<close> and the
  cache is what it was. Every file that \<^verbatim>\<open>_get_spec\<close> writes holds a spec with options on
  which the fixups change nothing, and so does every spec it returns after parsing. For a
  cache directory that started empty and that only discoveries and damage have touched,
  the same holds of every spec \<^verbatim>\<open>_get_spec\<close> returns, read from the cache or parsed, and of
  every spec the cache holds afterwards.
\<close>

theorem discovery_spec_nonempty_and_fixed:
  assumes "get_spec g cache = (r, cache')"
  shows "(\<forall>ver oo w1 po w2.
            gcc_get_version g = Inr (Some ver) \<and>
            read_cached g cache (version_hash ver) = Inr None \<and>
            gcc_parse_optimize g = Inr (oo, w1) \<and> gcc_parse_params g = Inr (po, w2) \<and>
            fix_options (oo @ po) = [] \<longrightarrow> r = Inr None \<and> cache' = cache) \<and>
         (\<forall>k. cache' k \<noteq> cache k \<longrightarrow>
            (\<exists>spec. cache' k = Some (Pickled spec) \<and> options spec \<noteq> [] \<and>
               fix_options (options spec) = options spec)) \<and>
         (\<forall>ver spec.
            gcc_get_version g = Inr (Some ver) \<and>
            read_cached g cache (version_hash ver) = Inr None \<and> r = Inr (Some spec) \<longrightarrow>
            options spec \<noteq> [] \<and> fix_options (options spec) = options spec) \<and>
         (reachable cache \<longrightarrow>
            (\<forall>spec. r = Inr (Some spec) \<longrightarrow>
               options spec \<noteq> [] \<and> fix_options (options spec) = options spec) \<and>
            (\<forall>k spec. cache' k = Some (Pickled spec) \<longrightarrow>
               options spec \<noteq> [] \<and> fix_options (options spec) = options spec))"
proof -
  have 1: "r = Inr None \<and> cache' = cache"
    if "gcc_get_version g = Inr (Some ver)" "read_cached g cache (version_hash ver) = Inr None"
      "gcc_parse_optimize g = Inr (oo, w1)" "gcc_parse_params g = Inr (po, w2)"
      "fix_options (oo @ po) = []" for ver oo w1 po w2
    using get_spec_empty_options[OF that] assms by simp
  have 2: "\<exists>spec. cache' k = Some (Pickled spec) \<and> options spec \<noteq> [] \<and>
               fix_options (options spec) = options spec" if "cache' k \<noteq> cache k" for k
    using get_spec_writes[OF assms that] .
  have 3: "options spec \<noteq> [] \<and> fix_options (options spec) = options spec"
    if "gcc_get_version g = Inr (Some ver)" "read_cached g cache (version_hash ver) = Inr None"
      "r = Inr (Some spec)" for ver spec
    using get_spec_miss_result[OF assms[unfolded that(3)] that(1,2)] .
  have 4: "(\<forall>spec. r = Inr (Some spec) \<longrightarrow>
               options spec \<noteq> [] \<and> fix_options (options spec) = options spec) \<and>
            (\<forall>k spec. cache' k = Some (Pickled spec) \<longrightarrow>
               options spec \<noteq> [] \<and> fix_options (options spec) = options spec)"
    if "reachable cache"
    using get_spec_cache_ok[OF reachable_cache_ok[OF that] assms]
    unfolding cache_ok_def by blast
  from 1 2 3 4 show ?thesis by blast
qed

theorem discovery_spec_nonempty_and_fixed_witness:
  "reachable Map.empty \<and>
   fst (get_spec (gcc_with_outputs ''gcc (GCC) 11.2.0'' ''header\<newline>  -ffoo'' ''header'')
          Map.empty)
     = Inr (Some \<lparr>gcc = gcc_with_outputs ''gcc (GCC) 11.2.0'' ''header\<newline>  -ffoo'' ''header'',
                  version = ''gcc (GCC) 11.2.0'', options = [GccFlagOption ''foo'' False]\<rparr>) \<and>
   [GccFlagOption ''foo'' False] \<noteq> [] \<and>
   fix_options [GccFlagOption ''foo'' False] = [GccFlagOption ''foo'' False] \<and>
   snd (get_spec (gcc_with_outputs ''gcc (GCC) 11.2.0'' ''header\<newline>  -ffoo'' ''header'')
          Map.empty) (version_hash ''gcc (GCC) 11.2.0'')
     = Some (Pickled \<lparr>gcc = gcc_with_outputs ''gcc (GCC) 11.2.0'' ''header\<newline>  -ffoo'' ''header'',
                  version = ''gcc (GCC) 11.2.0'', options = [GccFlagOption ''foo'' False]\<rparr>) \<and>
   get_spec (gcc_with_outputs ''gcc (GCC) 11.2.0'' ''header\<newline>  -flive-patching=[a|b]''
               ''header'') Map.empty
     = (Inr None, Map.empty)"
proof -
  let ?g1 = "gcc_with_outputs ''gcc (GCC) 11.2.0'' ''header\<newline>  -ffoo'' ''header''"
  let ?g2 = "gcc_with_outputs ''gcc (GCC) 11.2.0'' ''header\<newline>  -flive-patching=[a|b]''
               ''header''"
  have 1: "fst (get_spec ?g1 Map.empty)
     = Inr (Some \<lparr>gcc = ?g1, version = ''gcc (GCC) 11.2.0'',
                  options = [GccFlagOption ''foo'' False]\<rparr>)"
    by (simp add: text_defs pattern_defs parser_defs discovery_defs)
  have w: "snd (get_spec ?g1 Map.empty) (version_hash ''gcc (GCC) 11.2.0'')
     = Some (Pickled \<lparr>gcc = ?g1, version = ''gcc (GCC) 11.2.0'',
                  options = [GccFlagOption ''foo'' False]\<rparr>)"
    by (simp add: text_defs pattern_defs parser_defs discovery_defs)
  have v: "gcc_get_version ?g2 = Inr (Some ''gcc (GCC) 11.2.0'')"
    by (simp add: gcc_get_version_def gcc_with_outputs_def split_sep_def is_SubprocessError_def)
  have c: "read_cached ?g2 Map.empty (version_hash ''gcc (GCC) 11.2.0'') = Inr None"
    by (simp add: read_cached_def)
  have o: "gcc_parse_optimize ?g2 = Inr ([GccFlagEnumOption ''live-patching'' [''a'', ''b'']], [])"
    by (simp add: gcc_parse_optimize_def gcc_with_outputs_def text_defs pattern_defs parser_defs)
  have p: "gcc_parse_params ?g2 = Inr ([], [])"
    by (simp add: gcc_parse_params_def gcc_with_outputs_def text_defs pattern_defs parser_defs)
  have f: "fix_options ([GccFlagEnumOption ''live-patching'' [''a'', ''b'']] @ []) = []"
    by (simp add: fix_options_def)
  note T1 = discovery_spec_nonempty_and_fixed[OF prod.collapse[symmetric], of ?g1 Map.empty]
  note T2 = discovery_spec_nonempty_and_fixed[OF prod.collapse[symmetric], of ?g2 Map.empty]
  from T1 1 reachable.empty have a: "[GccFlagOption ''foo'' False] \<noteq> [] \<and>
   fix_options [GccFlagOption ''foo'' False] = [GccFlagOption ''foo'' False]"
    by simp
  from T2 v c o p f have "fst (get_spec ?g2 Map.empty) = Inr None \<and>
      snd (get_spec ?g2 Map.empty) = Map.empty" by blast
  then have b: "get_spec ?g2 Map.empty = (Inr None, Map.empty)"
    by (simp add: prod_eq_iff)
  from 1 w a b reachable.empty show ?thesis by blast
qed

subsection \<open>The order of the parsed options\<close>

lemma set_update_subset: "set (AList.update k v d) \<subseteq> insert (k, v) (set d)"
  by (induction d) auto

lemma keyed_Nil [simp]: "keyed []"
  by (simp add: keyed_def)

lemma keyed_update: "keyed d \<Longrightarrow> key_of v = k \<Longrightarrow> keyed (AList.update k v d)"
  unfolding keyed_def using set_update_subset[of k v d]
  by (auto simp: distinct_update)

lemma keyed_map_of: "keyed d \<Longrightarrow> map_of d k = Some opt \<Longrightarrow> key_of opt = k"
  unfolding keyed_def by (auto dest!: map_of_SomeD)

lemma for_each_preserves:
  assumes step: "\<And>x s s'. P s \<Longrightarrow> f x s = Inr s' \<Longrightarrow> P s'"
  shows "P s \<Longrightarrow> for_each f xs s = Inr s' \<Longrightarrow> P s'"
proof (induction xs arbitrary: s)
  case Nil
  then show ?case by simp
next
  case (Cons x xs)
  from Cons.prems(2) obtain s1 where 1: "f x s = Inr s1" and 2: "for_each f xs s1 = Inr s'"
    by (auto split: sum.splits)
  from step[OF Cons.prems(1) 1] have "P s1" .
  from Cons.IH[OF this 2] show ?case .
qed

lemma add_gcc_o_keyed: "keyed (fst st) \<Longrightarrow> add_gcc_o v st = Inr st' \<Longrightarrow> keyed (fst st')"
  by (cases st) (auto simp: add_gcc_o_def keyed_update split: option.splits Option.splits)

lemma add_gcc_flag_keyed: "keyed (fst st) \<Longrightarrow> add_gcc_flag name st = Inr st' \<Longrightarrow> keyed (fst st')"
  by (cases st) (auto simp: add_gcc_flag_def keyed_update keyed_map_of split: option.splits)

lemma add_gcc_flag_enum_keyed:
  "keyed (fst st) \<Longrightarrow> add_gcc_flag_enum name vals st = Inr st' \<Longrightarrow> keyed (fst st')"
  by (cases st) (auto simp: add_gcc_flag_enum_def keyed_update split: sum.splits)

lemma add_gcc_flag_int_keyed:
  "keyed (fst st) \<Longrightarrow> add_gcc_flag_int name mn mx st = Inr st' \<Longrightarrow> keyed (fst st')"
  by (cases st) (auto simp: add_gcc_flag_int_def keyed_update split: sum.splits)

lemma add_gcc_flag_align_keyed:
  "keyed (fst st) \<Longrightarrow> add_gcc_flag_align name st = Inr st' \<Longrightarrow> keyed (fst st')"
  by (cases st) (auto simp: add_gcc_flag_align_def keyed_update split: sum.splits)

lemma add_gcc_param_enum_keyed:
  "keyed (fst st) \<Longrightarrow> add_gcc_param_enum name vals st = Inr st' \<Longrightarrow> keyed (fst st')"
  by (cases st) (auto simp: add_gcc_param_enum_def keyed_update split: sum.splits)

lemma add_gcc_param_int_keyed:
  "keyed (fst st) \<Longrightarrow> add_gcc_param_int name mn mx st = Inr st' \<Longrightarrow> keyed (fst st')"
  by (cases st) (auto simp: add_gcc_param_int_def keyed_update split: sum.splits)

lemma parse_line_optimize_keyed:
  assumes "keyed (fst st)" "parse_line_optimize line st = Inr st'"
  shows "keyed (fst st')"
proof -
  have o: "\<And>s s'. keyed (fst s) \<Longrightarrow>
      for_each (\<lambda>i. add_gcc_o (str_int i)) (map int [0..<4]) s = Inr s' \<Longrightarrow> keyed (fst s')"
    by (rule for_each_preserves[where P = "\<lambda>s. keyed (fst s)"
          and f = "\<lambda>i. add_gcc_o (str_int i)"]) (rule add_gcc_o_keyed)
  show ?thesis
    using assms
    unfolding parse_line_optimize_def
    by (auto split: list.splits option.splits prod.splits
        dest: o add_gcc_o_keyed add_gcc_flag_keyed add_gcc_flag_enum_keyed
          add_gcc_flag_int_keyed add_gcc_flag_align_keyed)
qed

lemma parse_line_params_keyed:
  assumes "keyed (fst st)" "parse_line_params line st = Inr st'"
  shows "keyed (fst st')"
  using assms
  unfolding parse_line_params_def param_enum_block_def param_interval_block_def
    param_number_block_def param_old_interval_block_def
  by (auto split: list.splits option.splits prod.splits if_splits
      dest: add_gcc_param_enum_keyed add_gcc_param_int_keyed)

lemma sorted_values_of_keyed:
  assumes "keyed d"
  shows "sorted (map key_of (map snd (sort_key fst d))) \<and>
         distinct (map key_of (map snd (sort_key fst d)))"
proof -
  from assms have k: "\<forall>p\<in>set (sort_key fst d). key_of (snd p) = fst p"
    by (simp add: keyed_def)
  then have e: "map key_of (map snd (sort_key fst d)) = map fst (sort_key fst d)"
    by simp
  from assms have "distinct d" "inj_on fst (set d)"
    by (simp_all add: keyed_def distinct_map)
  then have "distinct (map fst (sort_key fst d))"
    by (simp add: distinct_map)
  then show ?thesis unfolding e by simp
qed

lemma parse_optimize_output_sorted:
  assumes "parse_optimize_output result = Inr (opts, warns)"
  shows "sorted (map key_of opts) \<and> distinct (map key_of opts)"
proof -
  from assms obtain d where
    f: "for_each (\<lambda>line. parse_line_optimize (strip line))
          (drop 1 (split_sep CHR 0x0A result)) ([], []) = Inr (d, warns)"
    and o: "opts = map snd (sort_key fst d)"
    by (auto simp: parse_optimize_output_def split: sum.splits)
  have "keyed (fst (d, warns))"
    by (rule for_each_preserves[where P = "\<lambda>s. keyed (fst s)", OF _ _ f])
       (auto dest: parse_line_optimize_keyed)
  then show ?thesis using sorted_values_of_keyed[of d] o by simp
qed

lemma parse_params_output_sorted:
  assumes "parse_params_output result = Inr (opts, warns)"
  shows "sorted (map key_of opts) \<and> distinct (map key_of opts)"
proof -
  from assms obtain d where
    f: "for_each (\<lambda>line. parse_line_params (strip line))
          (drop 1 (split_sep CHR 0x0A result)) ([], []) = Inr (d, warns)"
    and o: "opts = map snd (sort_key fst d)"
    by (auto simp: parse_params_output_def split: sum.splits)
  have "keyed (fst (d, warns))"
    by (rule for_each_preserves[where P = "\<lambda>s. keyed (fst s)", OF _ _ f])
       (auto dest: parse_line_params_keyed)
  then show ?thesis using sorted_values_of_keyed[of d] o by simp
qed

lemma gcc_parse_optimize_sorted:
  "gcc_parse_optimize g = Inr (opts, warns) \<Longrightarrow>
   sorted (map key_of opts) \<and> distinct (map key_of opts)"
  by (auto simp: gcc_parse_optimize_def split: sum.splits dest: parse_optimize_output_sorted)

lemma gcc_parse_params_sorted:
  "gcc_parse_params g = Inr (opts, warns) \<Longrightarrow>
   sorted (map key_of opts) \<and> distinct (map key_of opts)"
  by (auto simp: gcc_parse_params_def split: sum.splits dest: parse_params_output_sorted)

text \<open>
  C5, as the code has it. On a cache miss the options of the returned spec are the fixups
  of the optimization options followed by the parameters. Each of the two lists is in
  strictly ascending order of the keys under which its parser filed the options; the
  concatenation is not sorted again, and the fixups rename after the sort.
\<close>

theorem discovered_options_sorted_per_parser:
  assumes "gcc_get_version g = Inr (Some ver)"
    "read_cached g cache (version_hash ver) = Inr None"
    "get_spec g cache = (Inr (Some spec), cache')"
  shows "\<exists>optim_opts w1 param_opts w2.
           gcc_parse_optimize g = Inr (optim_opts, w1) \<and>
           gcc_parse_params g = Inr (param_opts, w2) \<and>
           options spec = fix_options (optim_opts @ param_opts) \<and>
           sorted (map key_of optim_opts) \<and> distinct (map key_of optim_opts) \<and>
           sorted (map key_of param_opts) \<and> distinct (map key_of param_opts)"
proof -
  from get_spec_cases[OF assms(3)] assms(1,2)
  obtain oo w1 po w2 where
    p: "gcc_parse_optimize g = Inr (oo, w1)" "gcc_parse_params g = Inr (po, w2)"
    and s: "spec = \<lparr>gcc = g, version = ver, options = fix_options (oo @ po)\<rparr>"
    by (auto simp: read_cached_def)
  from gcc_parse_optimize_sorted[OF p(1)] gcc_parse_params_sorted[OF p(2)] p s
  show ?thesis by auto
qed

theorem discovered_options_sorted_per_parser_witness:
  "gcc_parse_optimize (gcc_with_outputs ''gcc (GCC) 11.2.0'' ''header\<newline>  -ffoo\<newline>  -fbar''
      ''header\<newline>  --param=zed=<0,10> 5\<newline>  --param=abc= 3'')
     = Inr ([GccFlagOption ''bar'' False, GccFlagOption ''foo'' False], []) \<and>
   gcc_parse_params (gcc_with_outputs ''gcc (GCC) 11.2.0'' ''header\<newline>  -ffoo\<newline>  -fbar''
      ''header\<newline>  --param=zed=<0,10> 5\<newline>  --param=abc= 3'')
     = Inr ([GccParamIntOption ''abc'' 0 2147483648, GccParamIntOption ''zed'' 0 10], []) \<and>
   fst (get_spec (gcc_with_outputs ''gcc (GCC) 11.2.0'' ''header\<newline>  -ffoo\<newline>  -fbar''
      ''header\<newline>  --param=zed=<0,10> 5\<newline>  --param=abc= 3'') Map.empty)
     = Inr (Some \<lparr>gcc = gcc_with_outputs ''gcc (GCC) 11.2.0'' ''header\<newline>  -ffoo\<newline>  -fbar''
                          ''header\<newline>  --param=zed=<0,10> 5\<newline>  --param=abc= 3'',
                  version = ''gcc (GCC) 11.2.0'',
                  options = [GccFlagOption ''bar'' False, GccFlagOption ''foo'' False,
                             GccParamIntOption ''abc'' 0 2147483648,
                             GccParamIntOption ''zed'' 0 10]\<rparr>) \<and>
   sorted (map key_of [GccFlagOption ''bar'' False, GccFlagOption ''foo'' False]) \<and>
   distinct (map key_of [GccFlagOption ''bar'' False, GccFlagOption ''foo'' False]) \<and>
   sorted (map key_of [GccParamIntOption ''abc'' 0 2147483648, GccParamIntOption ''zed'' 0 10]) \<and>
   distinct (map key_of [GccParamIntOption ''abc'' 0 2147483648, GccParamIntOption ''zed'' 0 10])"
proof -
  let ?g = "gcc_with_outputs ''gcc (GCC) 11.2.0'' ''header\<newline>  -ffoo\<newline>  -fbar''
      ''header\<newline>  --param=zed=<0,10> 5\<newline>  --param=abc= 3''"
  let ?s = "\<lparr>gcc = ?g, version = ''gcc (GCC) 11.2.0'',
                  options = [GccFlagOption ''bar'' False, GccFlagOption ''foo'' False,
                             GccParamIntOption ''abc'' 0 2147483648,
                             GccParamIntOption ''zed'' 0 10]\<rparr>"
  have v: "gcc_get_version ?g = Inr (Some ''gcc (GCC) 11.2.0'')"
    by (simp add: gcc_get_version_def gcc_with_outputs_def split_sep_def is_SubprocessError_def)
  have c: "read_cached ?g Map.empty (version_hash ''gcc (GCC) 11.2.0'') = Inr None"
    by (simp add: read_cached_def)
  have o: "gcc_parse_optimize ?g
             = Inr ([GccFlagOption ''bar'' False, GccFlagOption ''foo'' False], [])"
    by (simp add: gcc_parse_optimize_def gcc_with_outputs_def text_defs pattern_defs parser_defs)
  have p: "gcc_parse_params ?g
             = Inr ([GccParamIntOption ''abc'' 0 2147483648, GccParamIntOption ''zed'' 0 10], [])"
    by (simp add: gcc_parse_params_def gcc_with_outputs_def text_defs pattern_defs parser_defs)
  have 1: "fst (get_spec ?g Map.empty) = Inr (Some ?s)"
    by (simp add: text_defs pattern_defs parser_defs discovery_defs)
  then have 2: "get_spec ?g Map.empty = (Inr (Some ?s), snd (get_spec ?g Map.empty))"
    by (metis prod.collapse)
  from discovered_options_sorted_per_parser[OF v c 2] o p
  have "sorted (map key_of [GccFlagOption ''bar'' False, GccFlagOption ''foo'' False]) \<and>
   distinct (map key_of [GccFlagOption ''bar'' False, GccFlagOption ''foo'' False]) \<and>
   sorted (map key_of [GccParamIntOption ''abc'' 0 2147483648, GccParamIntOption ''zed'' 0 10]) \<and>
   distinct (map key_of [GccParamIntOption ''abc'' 0 2147483648, GccParamIntOption ''zed'' 0 10])"
    by auto
  with o p 1 show ?thesis by blast
qed


text \<open>
  C5 as stated fails: with the flags \<^verbatim>\<open>exceptions\<close>, \<^verbatim>\<open>foo\<close> and \<^verbatim>\<open>handle-exceptions\<close> and
  the parameter \<^verbatim>\<open>bar\<close>, the list holds \<^verbatim>\<open>-fexceptions\<close> twice and is sorted neither by
  key nor by \<^verbatim>\<open>__str__\<close>.
\<close>

theorem whole_list_not_sorted_counterexample:
  "fst (get_spec (gcc_with_outputs ''gcc (GCC) 11.2.0''
                    ''header\<newline>  -fexceptions\<newline>  -ffoo\<newline>  -fhandle-exceptions''
                    ''header\<newline>  --param=bar=<0,10> 5'') Map.empty)
     = Inr (Some \<lparr>gcc = gcc_with_outputs ''gcc (GCC) 11.2.0''
                          ''header\<newline>  -fexceptions\<newline>  -ffoo\<newline>  -fhandle-exceptions''
                          ''header\<newline>  --param=bar=<0,10> 5'',
                  version = ''gcc (GCC) 11.2.0'',
                  options = [GccFlagOption ''exceptions'' False, GccFlagOption ''foo'' False,
                             GccFlagOption ''exceptions'' False,
                             GccParamIntOption ''bar'' 0 10]\<rparr>) \<and>
   \<not> distinct [GccFlagOption ''exceptions'' False, GccFlagOption ''foo'' False,
               GccFlagOption ''exceptions'' False, GccParamIntOption ''bar'' 0 10] \<and>
   \<not> sorted (map key_of [GccFlagOption ''exceptions'' False, GccFlagOption ''foo'' False,
               GccFlagOption ''exceptions'' False, GccParamIntOption ''bar'' 0 10]) \<and>
   \<not> sorted (map Option_str [GccFlagOption ''exceptions'' False, GccFlagOption ''foo'' False,
               GccFlagOption ''exceptions'' False, GccParamIntOption ''bar'' 0 10])"
  by (simp add: text_defs pattern_defs parser_defs discovery_defs)


end
